theory Spec2Isabelle
  imports Main "HOL-Library.Finite_Map" "HOL-Library.Char_ord" "HOL-Library.List_Lexorder"
begin

section \<open>Python values and the JSON documents of the data file\<close>

text \<open>
  The script \<^verbatim>\<open>utils/languages.py\<close> builds one dictionary, \<^verbatim>\<open>languages\<close>, from
  locale code to a pair of display names, and writes it to \<^verbatim>\<open>languages.dat\<close> with
  \<^verbatim>\<open>json.dump\<close>. The Python values that occur are \<^verbatim>\<open>None\<close>, strings, tuples,
  lists and dictionaries with string keys. A dictionary is a finite map, so that HOL
  equality on \<open>pyval\<close> is Python's \<^verbatim>\<open>==\<close> on these values: a tuple never equals a
  list, two dictionaries are equal when they hold the same items, in any order.

  Python 2 has two string types. A byte string (\<^verbatim>\<open>str\<close>: file names, locale codes,
  messages) is a \<open>string\<close>, and so are the keys of the dictionaries: they are locale
  codes and field names, for which a \<^verbatim>\<open>str\<close> key and the \<^verbatim>\<open>unicode\<close> key that
  \<^verbatim>\<open>json.load\<close> gives are the same key. A \<^verbatim>\<open>unicode\<close> object (the
  display names, which \<^verbatim>\<open>polib\<close>, \<^verbatim>\<open>babel\<close>, \<^verbatim>\<open>PyICU\<close> and \<^verbatim>\<open>json.load\<close> all
  return as \<^verbatim>\<open>unicode\<close>) is the list of its code points; \<open>ustr\<close> gives the
  \<^verbatim>\<open>unicode\<close> object of an ASCII literal.
\<close>

type_synonym unicode = "nat list"

definition ustr :: "string \<Rightarrow> unicode" where
  "ustr s = map of_char s"

datatype pyval =
    PNone
  | PStr unicode
  | PTuple "pyval list"
  | PList "pyval list"
  | PDict "(string, pyval) fmap"

type_synonym dict = "(string, pyval) fmap"

text \<open>
  A JSON document, as \<^verbatim>\<open>json.dump\<close> writes it and \<^verbatim>\<open>json.load\<close> reads it. The
  members of an object are kept in the order of the text. The text itself (white space,
  string escapes) is not modelled: with fixed \<^verbatim>\<open>indent\<close> and \<^verbatim>\<open>separators\<close> the bytes
  that \<^verbatim>\<open>json.dump\<close> writes are a function of the document.
\<close>

datatype json =
    JNull
  | JString unicode
  | JArray "json list"
  | JObject "(string \<times> json) list"

text \<open>
  \<^verbatim>\<open>json.dump(..., sort_keys=True)\<close>: tuples and lists both become arrays, and the
  members of every object are written in the order of their keys.
\<close>

primrec to_json :: "pyval \<Rightarrow> json" where
  "to_json PNone = JNull"
| "to_json (PStr s) = JString s"
| "to_json (PTuple xs) = JArray (map to_json xs)"
| "to_json (PList xs) = JArray (map to_json xs)"
| "to_json (PDict m) = JObject (sorted_list_of_fmap (fmmap to_json m))"

text \<open>
  \<^verbatim>\<open>json.load\<close>: an array becomes a list, an object becomes a dictionary in which a
  later member replaces an earlier one of the same key.
\<close>

primrec from_json :: "json \<Rightarrow> pyval" where
  "from_json JNull = PNone"
| "from_json (JString s) = PStr s"
| "from_json (JArray xs) = PList (map from_json xs)"
| "from_json (JObject kvs) = PDict (fmap_of_list (rev (map (map_prod id from_json) kvs)))"

text \<open>The same value with every tuple read as the list of its elements.\<close>

primrec listify :: "pyval \<Rightarrow> pyval" where
  "listify PNone = PNone"
| "listify (PStr s) = PStr s"
| "listify (PTuple xs) = PList (map listify xs)"
| "listify (PList xs) = PList (map listify xs)"
| "listify (PDict m) = PDict (fmmap listify m)"

text \<open>Truth value of a name (\<^verbatim>\<open>None\<close> and the empty string are false).\<close>

definition truthy :: "unicode option \<Rightarrow> bool" where
  "truthy n = (case n of None \<Rightarrow> False | Some s \<Rightarrow> s \<noteq> [])"

definition name_val :: "unicode option \<Rightarrow> pyval" where
  "name_val n = (case n of None \<Rightarrow> PNone | Some s \<Rightarrow> PStr s)"

section \<open>String operations\<close>

text \<open>
  \<^verbatim>\<open>unicode.title()\<close>, as CPython 2 computes it: going through the string, a
  character becomes its lower-case form when the character before it is cased, and its
  title-case form otherwise (at the start, or after an uncased character); a character
  is cased when \<^verbatim>\<open>islower\<close>, \<^verbatim>\<open>isupper\<close> or \<^verbatim>\<open>istitle\<close> holds of it. The three
  tables are those of the interpreter's Unicode database, which is not part of the
  script: they are a parameter, given by the world.
\<close>

record casing =
  cased :: "nat \<Rightarrow> bool"
  tolower :: "nat \<Rightarrow> nat"
  totitle :: "nat \<Rightarrow> nat"

fun title_from :: "casing \<Rightarrow> bool \<Rightarrow> unicode \<Rightarrow> unicode" where
  "title_from db previous_is_cased [] = []"
| "title_from db previous_is_cased (ch # rest) =
     (if previous_is_cased then tolower db ch else totitle db ch)
       # title_from db (cased db ch) rest"

definition title :: "casing \<Rightarrow> unicode \<Rightarrow> unicode" where
  "title db s = title_from db False s"

text \<open>A string is in title-cased form when \<^verbatim>\<open>title()\<close> leaves it as it is.\<close>

definition title_cased :: "casing \<Rightarrow> unicode \<Rightarrow> bool" where
  "title_cased db s = (title db s = s)"

text \<open>\<^verbatim>\<open>s.split("_", 1)\<close>: the parts before and after the first underscore.\<close>

definition split_first :: "string \<Rightarrow> string" where
  "split_first s = takeWhile (\<lambda>c. c \<noteq> CHR ''_'') s"

definition split_second :: "string \<Rightarrow> string option" where
  "split_second s =
     (if CHR ''_'' \<in> set s then Some (tl (dropWhile (\<lambda>c. c \<noteq> CHR ''_'') s)) else None)"

text \<open>
  \<^verbatim>\<open>os.path.splitext\<close> on a name without directory separator: the name is cut at its
  last dot, unless only dots come before it.
\<close>

definition splitext :: "string \<Rightarrow> string \<times> string" where
  "splitext p =
     (if CHR ''.'' \<in> set p then
        (let root = rev (tl (dropWhile (\<lambda>c. c \<noteq> CHR ''.'') (rev p)));
             ext = CHR ''.'' # rev (takeWhile (\<lambda>c. c \<noteq> CHR ''.'') (rev p))
         in if \<exists>c \<in> set root. c \<noteq> CHR ''.'' then (root, ext) else (p, []))
      else (p, []))"

definition osp_join :: "string \<Rightarrow> string \<Rightarrow> string" where
  "osp_join a b = (if a = [] \<or> last a = CHR ''/'' then a @ b else a @ ''/'' @ b)"

text \<open>\<^verbatim>\<open>"{0:d}".format(n)\<close> for a length.\<close>

fun decimal :: "nat \<Rightarrow> string" where
  "decimal n =
     (if n < 10 then [char_of (48 + n)]
      else decimal (n div 10) @ [char_of (48 + n mod 10)])"

section \<open>The world the script runs in\<close>

datatype pyerr =
    ImportError string
  | IOError string
  | ValueError string
  | KeyError string

text \<open>\<^verbatim>\<open>str(e)\<close>, as \<^verbatim>\<open>print e\<close> shows an exception.\<close>

fun err_text :: "pyerr \<Rightarrow> string" where
  "err_text (ImportError m) = m"
| "err_text (IOError m) = m"
| "err_text (ValueError m) = m"
| "err_text (KeyError k) = [CHR 39] @ k @ [CHR 39]"

text \<open>
  A locale library (\<^verbatim>\<open>icu\<close>, \<^verbatim>\<open>PyICU\<close> or \<^verbatim>\<open>babel\<close>), when it can be imported: the
  locale codes it lists and the two display names it gives for a code.
\<close>

record registry =
  locale_codes :: "string list"
  english_of :: "string \<Rightarrow> unicode option"
  native_of :: "string \<Rightarrow> unicode option"

text \<open>
  An entry of the directory \<^verbatim>\<open>g.data_dir\<close>: a regular file, with the header fields
  that \<^verbatim>\<open>polib\<close> reads from it (\<^verbatim>\<open>po.metadata\<close>), or anything else.
\<close>

datatype dirent = Regular "(string, unicode) fmap" | NotRegular

text \<open>
  What \<^verbatim>\<open>open\<close> and \<^verbatim>\<open>json.load\<close> find at a path: no file, a text that is not JSON
  (the empty or partial file that a failed write leaves is of this kind), or the text
  of a JSON object, given by its members. A file whose text is a JSON document of
  another kind is outside the model.
\<close>

datatype disk_file = Absent | NotJson | Object "(string \<times> json) list"

text \<open>
  What happens when the script writes its file: nothing wrong, \<^verbatim>\<open>open(filename, 'w')\<close>
  fails (read-only directory, permissions), or the file is opened and a later write
  fails (full disk). The string is the reason carried by the \<^verbatim>\<open>IOError\<close>.
\<close>

datatype fault = NoFault | OpenFails string | WriteFails string

text \<open>
  Everything outside the script that a run depends on: the locale libraries that can
  be imported (\<open>None\<close> when the import fails), the path \<^verbatim>\<open>g.data_dir\<close> and the entries
  of that directory as \<^verbatim>\<open>os.listdir\<close>, \<^verbatim>\<open>os.path.isfile\<close> and \<^verbatim>\<open>polib.pofile\<close> see
  them, the files as \<^verbatim>\<open>open\<close> sees them, the fault of the write,
  \<^verbatim>\<open>os.path.relpath\<close>, and the case tables of the Unicode database. The modules \<^verbatim>\<open>code.g\<close> and \<^verbatim>\<open>code.polib\<close> belong to the game and
  are taken to import.
\<close>

record world =
  mod_icu :: "registry option"
  mod_PyICU :: "registry option"
  mod_babel :: "registry option"
  g_data_dir :: string
  dir_entries :: "(string, dirent) fmap"
  files :: "string \<Rightarrow> disk_file"
  write_fault :: fault
  relpath :: "string \<Rightarrow> string"
  ucd :: casing

section \<open>The class \<^verbatim>\<open>Locale\<close>\<close>

definition getAvailableSources :: "string list" where
  "getAvailableSources = [''icu'', ''babel'', ''pofiles'']"

record locale_object =
  source :: string
  code :: "string option"
  english_name :: "unicode option"
  native_name :: "unicode option"
  getAvailableLocales :: "string list"

text \<open>\<^verbatim>\<open>"{0}".format(source)\<close> for the argument \<^verbatim>\<open>source\<close>, which may be \<^verbatim>\<open>None\<close>.\<close>

definition format_source :: "string option \<Rightarrow> string" where
  "format_source src = (case src of None \<Rightarrow> ''None'' | Some s \<Rightarrow> s)"

text \<open>
  The list that the \<^verbatim>\<open>pofiles\<close> source computes from \<^verbatim>\<open>os.listdir(g.data_dir)\<close>;
  the names are taken in sorted order.
\<close>

definition po_locales :: "world \<Rightarrow> string list" where
  "po_locales w =
     map (\<lambda>filename. the (split_second (fst (splitext filename))))
       (filter (\<lambda>filename.
            split_first filename = ''messages'' \<and>
            snd (splitext filename) = ''.po'' \<and>
            (case fmlookup (dir_entries w) filename of
               Some (Regular md) \<Rightarrow> True | _ \<Rightarrow> False))
          (sorted_list_of_fset (fmdom (dir_entries w))))"

definition metadata_get :: "(string, unicode) fmap \<Rightarrow> string \<Rightarrow> pyerr + unicode" where
  "metadata_get md k = (case fmlookup md k of None \<Rightarrow> Inl (KeyError k) | Some v \<Rightarrow> Inr v)"

text \<open>
  \<^verbatim>\<open>Locale.__init__(code, source)\<close>. An omitted or empty code is \<open>None\<close> or
  \<open>Some []\<close>; then the names stay \<^verbatim>\<open>None\<close>. An omitted or empty source is the first
  of \<^verbatim>\<open>getAvailableSources()\<close>; a source outside that list raises \<^verbatim>\<open>ValueError\<close>
  (\<^verbatim>\<open>lower()\<close> is applied after that test and changes nothing). The method
  \<^verbatim>\<open>getAvailableLocales\<close> of the object is modelled by the list it returns.

  For \<^verbatim>\<open>pofiles\<close> the catalog \<^verbatim>\<open>messages_<code>.po\<close> is read and its two header fields
  are looked up, \<^verbatim>\<open>Language-Name\<close> first; a missing field is a \<^verbatim>\<open>KeyError\<close>. A code
  without a regular file of that name gives \<^verbatim>\<open>IOError\<close> here; \<^verbatim>\<open>getLanguages\<close> never
  asks for such a code (lemma \<open>pofiles_locale_errors\<close> below).
\<close>

definition registry_locale :: "registry \<Rightarrow> string \<Rightarrow> string option \<Rightarrow> locale_object" where
  "registry_locale r src cd =
     (case cd of
        Some (c # cs) \<Rightarrow>
          \<lparr>source = src, code = cd, english_name = english_of r (c # cs),
           native_name = native_of r (c # cs), getAvailableLocales = locale_codes r\<rparr>
      | _ \<Rightarrow>
          \<lparr>source = src, code = cd, english_name = None, native_name = None,
           getAvailableLocales = locale_codes r\<rparr>)"

definition pofiles_locale :: "world \<Rightarrow> string option \<Rightarrow> pyerr + locale_object" where
  "pofiles_locale w cd =
     (case cd of
        Some (c # cs) \<Rightarrow>
          (case fmlookup (dir_entries w) (''messages_'' @ (c # cs) @ ''.po'') of
             Some (Regular md) \<Rightarrow>
               (case metadata_get md ''Language-Name'' of
                  Inl e \<Rightarrow> Inl e
                | Inr english \<Rightarrow>
                    (case metadata_get md ''Language-Native-Name'' of
                       Inl e \<Rightarrow> Inl e
                     | Inr native \<Rightarrow>
                         Inr \<lparr>source = ''pofiles'', code = cd, english_name = Some english,
                              native_name = Some native, getAvailableLocales = po_locales w\<rparr>))
           | _ \<Rightarrow> Inl (IOError (osp_join (g_data_dir w) (''messages_'' @ (c # cs) @ ''.po''))))
      | _ \<Rightarrow>
          Inr \<lparr>source = ''pofiles'', code = cd, english_name = None, native_name = None,
               getAvailableLocales = po_locales w\<rparr>)"

definition Locale_init :: "world \<Rightarrow> string option \<Rightarrow> string option \<Rightarrow> pyerr + locale_object" where
  "Locale_init w cd src =
     (let s = (case src of None \<Rightarrow> hd getAvailableSources
                         | Some [] \<Rightarrow> hd getAvailableSources
                         | Some x \<Rightarrow> x)
      in if s \<notin> set getAvailableSources then
           Inl (ValueError (format_source src
                  @ '' is not a valid source. Available sources are: icu, babel, pofiles''))
         else if s = ''babel'' then
           (case mod_babel w of
              None \<Rightarrow> Inl (ImportError ([CHR 39] @ format_source src @ [CHR 39] @ '' requires babel module''))
            | Some r \<Rightarrow> Inr (registry_locale r s cd))
         else if s = ''icu'' then
           (case mod_icu w of
              Some r \<Rightarrow> Inr (registry_locale r s cd)
            | None \<Rightarrow>
                (case mod_PyICU w of
                   Some r \<Rightarrow> Inr (registry_locale r s cd)
                 | None \<Rightarrow> Inl (ImportError ([CHR 39] @ format_source src @ [CHR 39]
                                     @ '' requires icu or PyICU module''))))
         else pofiles_locale w cd)"

text \<open>The value stored for a code: a 2-tuple, or a dictionary when \<^verbatim>\<open>tupletype\<close> is false.\<close>

definition entry :: "bool \<Rightarrow> unicode option \<Rightarrow> unicode option \<Rightarrow> pyval" where
  "entry tupletype english native =
     (if tupletype then PTuple [name_val english, name_val native]
      else PDict (fmap_of_list [(''english'', name_val english), (''native'', name_val native)]))"

text \<open>
  The loop of \<^verbatim>\<open>getLanguages\<close> over the selected codes, filling \<^verbatim>\<open>output\<close>. The test
  \<^verbatim>\<open>if locale:\<close> is true for every \<^verbatim>\<open>Locale\<close> object (the class defines neither
  \<^verbatim>\<open>__nonzero__\<close> nor \<^verbatim>\<open>__len__\<close>).
\<close>

fun collect :: "world \<Rightarrow> bool \<Rightarrow> string option \<Rightarrow> string list \<Rightarrow> dict \<Rightarrow> pyerr + dict" where
  "collect w tupletype src [] output = Inr output"
| "collect w tupletype src (c # cs) output =
     (case Locale_init w (Some c) src of
        Inl e \<Rightarrow> Inl e
      | Inr l \<Rightarrow>
          (let english = english_name l; native = native_name l
           in if \<not> (truthy english \<or> truthy native) then collect w tupletype src cs output
              else
                (let native' = (if truthy native then map_option (title (ucd w)) native else native)
                 in collect w tupletype src cs (fmupd c (entry tupletype english native') output))))"

text \<open>
  \<^verbatim>\<open>Locale.getLanguages(locales, tupletype, source)\<close>; an omitted \<^verbatim>\<open>locales\<close> is the
  empty list. The set \<^verbatim>\<open>set(locales) & set(available)\<close> is gone through in the order of
  the available codes.
\<close>

definition getLanguages :: "world \<Rightarrow> string list \<Rightarrow> bool \<Rightarrow> string option \<Rightarrow> pyerr + dict" where
  "getLanguages w locales tupletype src =
     (case Locale_init w None src of
        Inl e \<Rightarrow> Inl e
      | Inr l0 \<Rightarrow>
          (let selected =
                 (if locales \<noteq> [] then filter (\<lambda>c. c \<in> set locales) (remdups (getAvailableLocales l0))
                  else getAvailableLocales l0)
           in collect w tupletype src selected fmempty))"

text \<open>The members that \<^verbatim>\<open>json.dump\<close> writes for a dictionary, and the dictionary that
  \<^verbatim>\<open>json.load\<close> builds from the members of an object.\<close>

definition dump_object :: "dict \<Rightarrow> (string \<times> json) list" where
  "dump_object m = sorted_list_of_fmap (fmmap to_json m)"

definition load_object :: "(string \<times> json) list \<Rightarrow> dict" where
  "load_object kvs = fmap_of_list (rev (map (map_prod id from_json) kvs))"

text \<open>
  \<^verbatim>\<open>Locale.saveLanguagesData(languages, filename)\<close>: the exception raised, if any, and
  the files afterwards. Opening with mode \<^verbatim>\<open>'w'\<close> empties the file before anything is
  written; when nothing fails the file holds the text of the object (and the final
  newline, which is white space to \<^verbatim>\<open>json.load\<close>).
\<close>

definition saveLanguagesData :: "world \<Rightarrow> dict \<Rightarrow> string \<Rightarrow> pyerr option \<times> (string \<Rightarrow> disk_file)" where
  "saveLanguagesData w languages filename =
     (case write_fault w of
        OpenFails reason \<Rightarrow> (Some (IOError reason), files w)
      | WriteFails reason \<Rightarrow> (Some (IOError reason), (files w)(filename := NotJson))
      | NoFault \<Rightarrow> (None, (files w)(filename := Object (dump_object languages))))"

definition loadLanguagesData :: "(string \<Rightarrow> disk_file) \<Rightarrow> string \<Rightarrow> pyerr + dict" where
  "loadLanguagesData fs filename =
     (case fs filename of
        Absent \<Rightarrow> Inl (IOError (''No such file or directory: '' @ filename))
      | NotJson \<Rightarrow> Inl (ValueError ''No JSON object could be decoded'')
      | Object kvs \<Rightarrow> Inr (load_object kvs))"

section \<open>The driver\<close>

text \<open>
  The first loop of \<^verbatim>\<open>main\<close>, over \<^verbatim>\<open>sources[:-1]\<close>: the first source whose
  \<^verbatim>\<open>getLanguages\<close> does not raise \<^verbatim>\<open>ImportError\<close> gives \<^verbatim>\<open>languages\<close>; any other
  exception leaves the loop and \<^verbatim>\<open>main\<close>.
\<close>

fun first_source :: "world \<Rightarrow> string list \<Rightarrow> pyerr + dict" where
  "first_source w [] = Inr fmempty"
| "first_source w (s # ss) =
     (case getLanguages w [] True (Some s) of
        Inr languages \<Rightarrow> Inr languages
      | Inl (ImportError m) \<Rightarrow> first_source w ss
      | Inl e \<Rightarrow> Inl e)"

definition datafile :: "world \<Rightarrow> string" where
  "datafile w = osp_join (g_data_dir w) ''languages.dat''"

text \<open>
  The value of \<^verbatim>\<open>languages\<close> when \<^verbatim>\<open>main\<close> reaches the call of \<^verbatim>\<open>saveLanguagesData\<close>,
  or the exception that ends \<^verbatim>\<open>main\<close> before. \<^verbatim>\<open>dict.update\<close> is \<open>++\<^sub>f\<close>.
\<close>

definition merged_languages :: "world \<Rightarrow> pyerr + dict" where
  "merged_languages w =
     (case first_source w (butlast getAvailableSources) of
        Inl e \<Rightarrow> Inl e
      | Inr languages \<Rightarrow>
          (case (case loadLanguagesData (files w) (datafile w) of
                   Inr loaded \<Rightarrow> Inr (languages ++\<^sub>f loaded)
                 | Inl (IOError m) \<Rightarrow> Inr languages
                 | Inl e \<Rightarrow> Inl e) of
             Inl e \<Rightarrow> Inl e
           | Inr languages' \<Rightarrow>
               (case getLanguages w [] True (Some (last getAvailableSources)) of
                  Inl e \<Rightarrow> Inl e
                | Inr translations \<Rightarrow> Inr (languages' ++\<^sub>f translations))))"

text \<open>
  What \<^verbatim>\<open>main\<close> leaves behind: the exception that escapes it (it returns \<^verbatim>\<open>None\<close>
  otherwise), the lines printed, the text written to \<^verbatim>\<open>sys.stderr\<close> and the files.
\<close>

record outcome =
  raised :: "pyerr option"
  printed :: "string list"
  err_written :: "string list"
  files_after :: "string \<Rightarrow> disk_file"

definition main :: "world \<Rightarrow> outcome" where
  "main w =
     (case merged_languages w of
        Inl e \<Rightarrow> \<lparr>raised = Some e, printed = [], err_written = [], files_after = files w\<rparr>
      | Inr languages \<Rightarrow>
          (case saveLanguagesData w languages (datafile w) of
             (None, fs) \<Rightarrow>
               \<lparr>raised = None,
                printed = [decimal (fcard (fmdom languages)) @ '' languages saved to ''
                             @ relpath w (datafile w)],
                err_written = [], files_after = fs\<rparr>
           | (Some (IOError reason), fs) \<Rightarrow>
               \<lparr>raised = None, printed = [],
                err_written = [''Could not save languages data file: '' @ reason @ [CHR 10]],
                files_after = fs\<rparr>
           | (Some e, fs) \<Rightarrow>
               \<lparr>raised = Some e, printed = [], err_written = [], files_after = fs\<rparr>))"

text \<open>
  The script run without arguments: \<^verbatim>\<open>sys.exit(main(sys.argv[1:]))\<close> under
  \<^verbatim>\<open>except Exception as e: print e; sys.exit(1)\<close>. \<^verbatim>\<open>main\<close> has no \<^verbatim>\<open>return\<close>
  statement, and \<^verbatim>\<open>sys.exit(None)\<close> is exit status 0.
\<close>

record run =
  exit_code :: nat
  stdout :: "string list"
  stderr :: "string list"
  files_end :: "string \<Rightarrow> disk_file"

definition script :: "world \<Rightarrow> run" where
  "script w =
     (let r = main w
      in case raised r of
           None \<Rightarrow>
             \<lparr>exit_code = 0, stdout = printed r, stderr = err_written r,
              files_end = files_after r\<rparr>
         | Some e \<Rightarrow>
             \<lparr>exit_code = 1, stdout = printed r @ [err_text e], stderr = err_written r,
              files_end = files_after r\<rparr>)"

section \<open>Concrete worlds\<close>

text \<open>
  The worlds on which the properties below are evaluated. \<open>example_world\<close> is the
  example of the specification: the registry knows \<^verbatim>\<open>en\<close> as English / english, the
  data file holds \<^verbatim>\<open>en\<close> and \<^verbatim>\<open>fr\<close>, and there is one catalog, \<^verbatim>\<open>messages_en.po\<close>.
\<close>

text \<open>
  The case tables of the Unicode database on the code points below 256 (Basic Latin
  and Latin-1 Supplement), where the names of these worlds lie; code points from 256
  on are left as they are.
\<close>

definition latin1_casing :: casing where
  "latin1_casing =
     \<lparr>cased = (\<lambda>c. (65 \<le> c \<and> c \<le> 90) \<or> (97 \<le> c \<and> c \<le> 122)
                    \<or> c = 170 \<or> c = 181 \<or> c = 186
                    \<or> (192 \<le> c \<and> c \<le> 214) \<or> (216 \<le> c \<and> c \<le> 246)
                    \<or> (248 \<le> c \<and> c \<le> 255)),
      tolower = (\<lambda>c. if (65 \<le> c \<and> c \<le> 90) \<or> (192 \<le> c \<and> c \<le> 214)
                          \<or> (216 \<le> c \<and> c \<le> 222)
                       then c + 32 else c),
      totitle = (\<lambda>c. if (97 \<le> c \<and> c \<le> 122) \<or> (224 \<le> c \<and> c \<le> 246)
                          \<or> (248 \<le> c \<and> c \<le> 254)
                       then c - 32
                       else if c = 255 then 376
                       else if c = 181 then 924
                       else c)\<rparr>"

definition example_registry :: registry where
  "example_registry =
     \<lparr>locale_codes = [''en''],
      english_of = (\<lambda>c. if c = ''en'' then Some (ustr ''English'') else Some (ustr c)),
      native_of = (\<lambda>c. if c = ''en'' then Some (ustr ''english'') else Some (ustr c))\<rparr>"

definition english_catalog :: dirent where
  "english_catalog =
     Regular (fmap_of_list [(''Language-Name'', ustr ''English''),
                            (''Language-Native-Name'', ustr ''English'')])"

definition example_world :: world where
  "example_world =
     \<lparr>mod_icu = Some example_registry, mod_PyICU = None, mod_babel = None,
      g_data_dir = ''data'',
      dir_entries = fmap_of_list [(''messages_en.po'', english_catalog)],
      files = (\<lambda>p. if p = ''data/languages.dat''
                     then Object [(''en'', JArray [JString (ustr ''English''), JString (ustr ''English'')]),
                                  (''fr'', JArray [JString (ustr ''French''),
                                     JString (ustr ''Fran'' @ [231] @ ustr ''ais'')])]
                     else Absent),
      write_fault = NoFault,
      relpath = (\<lambda>p. p),
      ucd = latin1_casing\<rparr>"

text \<open>No locale library and no data file yet: only the catalog.\<close>

definition fresh_world :: world where
  "fresh_world = example_world\<lparr>mod_icu := None, files := (\<lambda>p. Absent)\<rparr>"

text \<open>The example with a data file that cannot be opened for writing.\<close>

definition unwritable_world :: world where
  "unwritable_world = example_world\<lparr>write_fault := OpenFails ''[Errno 13] Permission denied''\<rparr>"

text \<open>The example with a disk that fills up while the file is written.\<close>

definition full_disk_world :: world where
  "full_disk_world =
     example_world\<lparr>write_fault := WriteFails ''[Errno 28] No space left on device''\<rparr>"

text \<open>A world with both locale libraries, where the three sources disagree.\<close>

definition wide_registry :: registry where
  "wide_registry =
     \<lparr>locale_codes = [''de'', ''en'', ''fr''],
      english_of = (\<lambda>c. if c = ''de'' then Some (ustr ''German'')
                          else if c = ''en'' then Some (ustr ''English'')
                          else if c = ''fr'' then Some (ustr ''French'') else Some (ustr c)),
      native_of = (\<lambda>c. if c = ''de'' then Some (ustr ''deutsch'')
                         else if c = ''en'' then Some (ustr ''english'')
                         else if c = ''fr'' then Some (ustr ''francais'') else Some (ustr c))\<rparr>"

definition precedence_world :: world where
  "precedence_world =
     example_world
       \<lparr>mod_icu := Some wide_registry,
        mod_babel := Some example_registry,
        files := (\<lambda>p. if p = ''data/languages.dat''
                       then Object [(''en'', JArray [JString (ustr ''Anglais''), JString (ustr ''anglais'')]),
                                    (''fr'', JArray [JString (ustr ''Francais''), JString (ustr ''francais'')])]
                       else Absent)\<rparr>"

text \<open>The example without any locale library.\<close>

definition bare_world :: world where
  "bare_world = example_world\<lparr>mod_icu := None\<rparr>"

text \<open>A registry that lists a code, \<^verbatim>\<open>xx\<close>, for which it has no name.\<close>

definition sparse_registry :: registry where
  "sparse_registry =
     \<lparr>locale_codes = [''en'', ''xx''],
      english_of = (\<lambda>c. if c = ''en'' then Some (ustr ''English'') else Some []),
      native_of = (\<lambda>c. if c = ''en'' then Some (ustr ''english'') else None)\<rparr>"

definition sparse_world :: world where
  "sparse_world = example_world\<lparr>mod_icu := Some sparse_registry\<rparr>"

text \<open>
  No locale library, the catalog of the example, and a data file whose native name
  for \<^verbatim>\<open>fr\<close> is in lower case.
\<close>

definition lowercase_world :: world where
  "lowercase_world =
     fresh_world
       \<lparr>files := (\<lambda>p. if p = ''data/languages.dat''
                       then Object [(''fr'', JArray [JString (ustr ''French''), JString (ustr ''french'')])]
                       else Absent)\<rparr>"

text \<open>The example with a second catalog, \<^verbatim>\<open>messages_de.po\<close>, that has no native name.\<close>

definition broken_catalog_world :: world where
  "broken_catalog_world =
     example_world
       \<lparr>dir_entries :=
          fmap_of_list
            [(''messages_en.po'', english_catalog),
             (''messages_de.po'', Regular (fmap_of_list [(''Language-Name'', ustr ''German'')]))]\<rparr>"

text \<open>
  As \<open>lowercase_world\<close>, with \<^verbatim>\<open>babel\<close> at hand: it knows \<^verbatim>\<open>pt\<close>, with the native
  name in lower case, \<^verbatim>\<open>portugu\u00eas\<close>.
\<close>

definition accent_registry :: registry where
  "accent_registry =
     \<lparr>locale_codes = [''pt''],
      english_of = (\<lambda>c. if c = ''pt'' then Some (ustr ''Portuguese'') else Some (ustr c)),
      native_of = (\<lambda>c. if c = ''pt'' then Some (ustr ''portugu'' @ [234] @ ustr ''s'')
                         else Some (ustr c))\<rparr>"

definition accent_world :: world where
  "accent_world = lowercase_world\<lparr>mod_babel := Some accent_registry\<rparr>"

section \<open>Saving and loading\<close>

lemma map_of_rev_distinct:
  "distinct (map fst xs) \<Longrightarrow> map_of (rev xs) = map_of xs"
proof (induction xs)
  case Nil
  then show ?case by simp
next
  case (Cons x xs)
  obtain k v where x: "x = (k, v)" by (cases x)
  from Cons.prems x have notin: "k \<notin> fst ` set xs" and d: "distinct (map fst xs)"
    by auto
  from notin have none: "map_of xs k = None"
    by (simp add: map_of_eq_None_iff)
  have "map_of (rev (x # xs)) = map_of [x] ++ map_of (rev xs)"
    by simp
  also have "\<dots> = map_of [x] ++ map_of xs"
    using Cons.IH d by simp
  also have "\<dots> = map_of (x # xs)"
  proof (rule ext)
    fix j
    show "(map_of [x] ++ map_of xs) j = map_of (x # xs) j"
    proof (cases "j = k")
      case True
      with none x show ?thesis by (simp add: map_add_def)
    next
      case False
      with x show ?thesis by (simp add: map_add_def split: option.splits)
    qed
  qed
  finally show ?case .
qed

lemma distinct_keys_sorted_list_of_fmap:
  "distinct (map fst (sorted_list_of_fmap m))"
  by (simp add: sorted_list_of_fmap_def comp_def sorted_list_of_fset.rep_eq)

lemma sorted_keys_sorted_list_of_fmap:
  "sorted (map fst (sorted_list_of_fmap m))"
  by (simp add: sorted_list_of_fmap_def comp_def sorted_list_of_fset.rep_eq)

lemma fmlookup_load_object:
  "distinct (map fst kvs) \<Longrightarrow>
   fmlookup (load_object kvs) k = map_option from_json (map_of kvs k)"
proof -
  assume d: "distinct (map fst kvs)"
  have m: "map (map_prod id from_json) kvs = map (\<lambda>(k, v). (k, from_json v)) kvs"
    by (rule map_cong) auto
  have "distinct (map fst (map (map_prod id from_json) kvs))"
    using d by (simp add: comp_def)
  then have "map_of (rev (map (map_prod id from_json) kvs)) = map_of (map (map_prod id from_json) kvs)"
    by (rule map_of_rev_distinct)
  then show ?thesis
    by (simp add: load_object_def fmlookup_of_list m map_of_map)
qed

lemma from_json_object: "from_json (JObject kvs) = PDict (load_object kvs)"
  by (simp add: load_object_def)

lemma to_json_dict: "to_json (PDict m) = JObject (dump_object m)"
  by (simp add: dump_object_def)

lemma from_to_json: "from_json (to_json v) = listify v"
proof (induction v)
  case (PDict m)
  have "load_object (dump_object m) = fmmap listify m"
  proof (rule fmap_ext)
    fix k
    have "fmlookup (load_object (dump_object m)) k
        = map_option from_json (map_of (dump_object m) k)"
      by (rule fmlookup_load_object) (simp add: dump_object_def distinct_keys_sorted_list_of_fmap)
    also have "\<dots> = map_option from_json (map_option to_json (fmlookup m k))"
      by (simp add: dump_object_def)
    also have "\<dots> = map_option listify (fmlookup m k)"
      using PDict.IH by (cases "fmlookup m k") (auto dest: fmran'I)
    finally show "fmlookup (load_object (dump_object m)) k = fmlookup (fmmap listify m) k"
      by simp
  qed
  then show ?case
    by (simp only: to_json_dict from_json_object listify.simps)
qed (simp_all cong: map_cong)

lemma to_json_listify: "to_json (listify v) = to_json v"
proof (induction v)
  case (PDict m)
  have "fmmap to_json (fmmap listify m) = fmmap to_json m"
  proof (rule fmap_ext)
    fix k
    show "fmlookup (fmmap to_json (fmmap listify m)) k = fmlookup (fmmap to_json m) k"
      using PDict.IH by (cases "fmlookup m k") (auto dest: fmran'I)
  qed
  then show ?case by simp
qed (simp_all cong: map_cong)

lemma load_dump_object: "load_object (dump_object m) = fmmap listify m"
  using from_to_json [of "PDict m"] by (simp only: to_json_dict from_json_object listify.simps pyval.inject)

lemma dump_object_listify: "dump_object (fmmap listify m) = dump_object m"
  using to_json_listify [of "PDict m"] by (simp only: to_json_dict listify.simps json.inject)

section \<open>The example of the specification\<close>

text \<open>
  Claim C9. In the world where the registry yields \<^verbatim>\<open>en\<close> as (English, english), the
  persisted file holds \<^verbatim>\<open>{"en": ["English", "English"], "fr": ["French", "Fran\u00e7ais"]}\<close>
  and the translation files yield \<^verbatim>\<open>{"en": ("English", "English")}\<close>, the run ends with
  status 0 and the data file holds exactly the object
  \<^verbatim>\<open>{"en": ["English", "English"], "fr": ["French", "Fran\u00e7ais"]}\<close>.
\<close>

theorem spec_example_final_data:
  "english_of example_registry ''en'' = Some (ustr ''English'')
   \<and> native_of example_registry ''en'' = Some (ustr ''english'')
   \<and> files example_world (datafile example_world)
       = Object [(''en'', JArray [JString (ustr ''English''), JString (ustr ''English'')]),
                 (''fr'', JArray [JString (ustr ''French''), JString (ustr ''Fran'' @ [231] @ ustr ''ais'')])]
   \<and> getLanguages example_world [] True (Some ''pofiles'')
       = Inr (fmap_of_list [(''en'', PTuple [PStr (ustr ''English''), PStr (ustr ''English'')])])
   \<and> exit_code (script example_world) = 0
   \<and> files_end (script example_world) (datafile example_world)
       = Object [(''en'', JArray [JString (ustr ''English''), JString (ustr ''English'')]),
                 (''fr'', JArray [JString (ustr ''French''), JString (ustr ''Fran'' @ [231] @ ustr ''ais'')])]"
  by code_simp

lemma listify_from_json: "listify (from_json j) = from_json j"
proof (induction j)
  case (JObject kvs)
  have "fmmap listify (load_object kvs) = load_object kvs"
  proof (rule fmap_ext)
    fix k
    show "fmlookup (fmmap listify (load_object kvs)) k = fmlookup (load_object kvs) k"
    proof (cases "fmlookup (load_object kvs) k")
      case None
      then show ?thesis by simp
    next
      case (Some v)
      then have "(k, v) \<in> set (rev (map (map_prod id from_json) kvs))"
        unfolding load_object_def by (rule fmap_of_list_SomeD)
      then obtain j where "(k, j) \<in> set kvs" and v: "v = from_json j"
        by auto
      then have "listify v = v"
        using JObject.IH [of "(k, j)" j] by simp
      with Some show ?thesis by simp
    qed
  qed
  then show ?case
    by (simp only: from_json_object listify.simps)
qed (simp_all cong: map_cong)

lemma saved_file:
  "write_fault w = NoFault \<Longrightarrow>
   saveLanguagesData w languages filename
     = (None, (files w)(filename := Object (dump_object languages)))"
  by (simp add: saveLanguagesData_def)

section \<open>Round trip through the data file\<close>

text \<open>
  Claim C3, as amended. When the write goes through, loading the saved file returns
  the saved dictionary with every tuple read as a list (\<^verbatim>\<open>json\<close> writes a tuple as an
  array and reads an array as a list); saving what was loaded writes the same file
  again; the members of the file are in the order of their keys, each key once; and
  a dictionary that was itself loaded from a file is returned unchanged.
\<close>

theorem save_then_load:
  assumes "write_fault w = NoFault"
  shows "loadLanguagesData (snd (saveLanguagesData w languages filename)) filename
           = Inr (fmmap listify languages)
       \<and> snd (saveLanguagesData (w\<lparr>files := snd (saveLanguagesData w languages filename)\<rparr>)
                (fmmap listify languages) filename)
           = snd (saveLanguagesData w languages filename)
       \<and> (\<exists>kvs. snd (saveLanguagesData w languages filename) filename = Object kvs
              \<and> sorted (map fst kvs) \<and> distinct (map fst kvs))
       \<and> (\<forall>fs d. loadLanguagesData fs filename = Inr d \<longrightarrow>
              loadLanguagesData (snd (saveLanguagesData w d filename)) filename = Inr d)"
proof (intro conjI allI impI)
  show "loadLanguagesData (snd (saveLanguagesData w languages filename)) filename
          = Inr (fmmap listify languages)"
    using assms by (simp add: saved_file loadLanguagesData_def load_dump_object)
  show "snd (saveLanguagesData (w\<lparr>files := snd (saveLanguagesData w languages filename)\<rparr>)
               (fmmap listify languages) filename)
          = snd (saveLanguagesData w languages filename)"
    using assms by (simp add: saved_file saveLanguagesData_def dump_object_listify)
  show "\<exists>kvs. snd (saveLanguagesData w languages filename) filename = Object kvs
           \<and> sorted (map fst kvs) \<and> distinct (map fst kvs)"
    using assms
    by (simp add: saved_file dump_object_def sorted_keys_sorted_list_of_fmap
          distinct_keys_sorted_list_of_fmap)
next
  fix fs d
  assume "loadLanguagesData fs filename = Inr d"
  then obtain kvs where d: "d = load_object kvs"
    by (auto simp: loadLanguagesData_def split: disk_file.splits)
  have "PDict (fmmap listify d) = PDict d"
    using listify_from_json [of "JObject kvs"] d by (simp only: from_json_object listify.simps)
  then have "fmmap listify d = d" by simp
  then show "loadLanguagesData (snd (saveLanguagesData w d filename)) filename = Inr d"
    using assms by (simp add: saved_file loadLanguagesData_def load_dump_object)
qed

theorem save_then_load_witness:
  "write_fault fresh_world = NoFault
   \<and> loadLanguagesData
       (snd (saveLanguagesData fresh_world
               (fmap_of_list [(''en'', PTuple [PStr (ustr ''English''), PStr (ustr ''English'')])])
               ''data/languages.dat''))
       ''data/languages.dat''
     = Inr (fmap_of_list [(''en'', PList [PStr (ustr ''English''), PStr (ustr ''English'')])])"
proof -
  have nf: "write_fault fresh_world = NoFault"
    by code_simp
  have l: "fmmap listify (fmap_of_list [(''en'', PTuple [PStr (ustr ''English''), PStr (ustr ''English'')])])
         = fmap_of_list [(''en'', PList [PStr (ustr ''English''), PStr (ustr ''English'')])]"
    by code_simp
  show ?thesis
    using nf l
      save_then_load [OF nf, of "fmap_of_list [(''en'', PTuple [PStr (ustr ''English''), PStr (ustr ''English'')])]"
        "''data/languages.dat''"]
    by simp
qed

text \<open>
  The claim as stated fails on the dictionary that \<^verbatim>\<open>main\<close> builds when there is one
  catalog and nothing else: its entry is a tuple, and what is loaded back is a list.
\<close>

theorem tuples_do_not_round_trip:
  "merged_languages fresh_world
     = Inr (fmap_of_list [(''en'', PTuple [PStr (ustr ''English''), PStr (ustr ''English'')])])
   \<and> write_fault fresh_world = NoFault
   \<and> loadLanguagesData
       (snd (saveLanguagesData fresh_world
               (fmap_of_list [(''en'', PTuple [PStr (ustr ''English''), PStr (ustr ''English'')])])
               ''data/languages.dat''))
       ''data/languages.dat''
     \<noteq> Inr (fmap_of_list [(''en'', PTuple [PStr (ustr ''English''), PStr (ustr ''English'')])])"
  by code_simp

lemma main_raises:
  "merged_languages w = Inl e \<Longrightarrow>
   main w = \<lparr>raised = Some e, printed = [], err_written = [], files_after = files w\<rparr>"
  by (simp add: main_def)

lemma main_saved:
  "merged_languages w = Inr languages \<Longrightarrow> write_fault w = NoFault \<Longrightarrow>
   main w = \<lparr>raised = None,
             printed = [decimal (fcard (fmdom languages)) @ '' languages saved to ''
                          @ relpath w (datafile w)],
             err_written = [],
             files_after = (files w)(datafile w := Object (dump_object languages))\<rparr>"
  by (simp add: main_def saveLanguagesData_def)

lemma main_open_fails:
  "merged_languages w = Inr languages \<Longrightarrow> write_fault w = OpenFails reason \<Longrightarrow>
   main w = \<lparr>raised = None, printed = [],
             err_written = [''Could not save languages data file: '' @ reason @ [CHR 10]],
             files_after = files w\<rparr>"
  by (simp add: main_def saveLanguagesData_def)

lemma main_write_fails:
  "merged_languages w = Inr languages \<Longrightarrow> write_fault w = WriteFails reason \<Longrightarrow>
   main w = \<lparr>raised = None, printed = [],
             err_written = [''Could not save languages data file: '' @ reason @ [CHR 10]],
             files_after = (files w)(datafile w := NotJson)\<rparr>"
  by (simp add: main_def saveLanguagesData_def)

lemma main_returns:
  "merged_languages w = Inr languages \<Longrightarrow> raised (main w) = None"
  by (cases "write_fault w") (simp_all add: main_saved main_open_fails main_write_fails)

lemma script_raises:
  "merged_languages w = Inl e \<Longrightarrow>
   script w = \<lparr>exit_code = 1, stdout = [err_text e], stderr = [], files_end = files w\<rparr>"
  by (simp add: script_def main_raises Let_def)

lemma script_returns:
  "merged_languages w = Inr languages \<Longrightarrow>
   script w = \<lparr>exit_code = 0, stdout = printed (main w), stderr = err_written (main w),
               files_end = files_after (main w)\<rparr>"
  by (simp add: script_def main_returns Let_def)

section \<open>Exit status and diagnostics\<close>

text \<open>
  Claim C1, as the code behaves. Whenever \<^verbatim>\<open>main\<close> reaches the call of
  \<^verbatim>\<open>saveLanguagesData\<close>, the exit status is 0: when the write fails, the reason is
  written to \<^verbatim>\<open>sys.stderr\<close> and nothing is printed, but \<^verbatim>\<open>main\<close> returns \<^verbatim>\<open>None\<close>
  all the same, so that a failed write does not end in a non-zero status; when the
  write succeeds, nothing is written to \<^verbatim>\<open>sys.stderr\<close> and the file holds the merged
  dictionary.
\<close>

theorem exit_status_after_save_attempt:
  assumes "merged_languages w = Inr languages"
  shows "exit_code (script w) = 0
       \<and> (\<forall>reason. write_fault w = OpenFails reason \<or> write_fault w = WriteFails reason \<longrightarrow>
              stderr (script w) = [''Could not save languages data file: '' @ reason @ [CHR 10]]
              \<and> stdout (script w) = [])
       \<and> (write_fault w = NoFault \<longrightarrow>
              stderr (script w) = []
              \<and> files_end (script w) (datafile w) = Object (dump_object languages))"
  using assms
  by (auto simp: script_returns main_saved main_open_fails main_write_fails)

theorem exit_status_after_save_attempt_witness:
  "merged_languages unwritable_world
     = Inr (fmap_of_list
             [(''en'', PTuple [PStr (ustr ''English''), PStr (ustr ''English'')]),
              (''fr'', PList [PStr (ustr ''French''), PStr (ustr ''Fran'' @ [231] @ ustr ''ais'')])])
   \<and> write_fault unwritable_world = OpenFails ''[Errno 13] Permission denied''
   \<and> stderr (script unwritable_world)
       = [''Could not save languages data file: [Errno 13] Permission denied'' @ [CHR 10]]
   \<and> exit_code (script unwritable_world) = 0"
proof -
  have m: "merged_languages unwritable_world
     = Inr (fmap_of_list
             [(''en'', PTuple [PStr (ustr ''English''), PStr (ustr ''English'')]),
              (''fr'', PList [PStr (ustr ''French''), PStr (ustr ''Fran'' @ [231] @ ustr ''ais'')])])"
    by code_simp
  have f: "write_fault unwritable_world = OpenFails ''[Errno 13] Permission denied''"
    by code_simp
  show ?thesis
    using m f exit_status_after_save_attempt [OF m] by simp
qed

section \<open>The data file after a failed write\<close>

text \<open>
  Claim C5, as amended. When the data file cannot be opened for writing, no file is
  changed by the run, and if \<^verbatim>\<open>main\<close> got as far as saving, the reason is written to
  \<^verbatim>\<open>sys.stderr\<close>.
\<close>

theorem open_failure_leaves_files:
  assumes "write_fault w = OpenFails reason"
  shows "files_end (script w) = files w
       \<and> (\<forall>languages. merged_languages w = Inr languages \<longrightarrow>
              stderr (script w) = [''Could not save languages data file: '' @ reason @ [CHR 10]])"
proof (cases "merged_languages w")
  case (Inl e)
  then show ?thesis by (simp add: script_raises)
next
  case (Inr languages)
  with assms show ?thesis by (simp add: script_returns main_open_fails)
qed

theorem open_failure_leaves_files_witness:
  "write_fault unwritable_world = OpenFails ''[Errno 13] Permission denied''
   \<and> files_end (script unwritable_world) = files unwritable_world
   \<and> stderr (script unwritable_world)
       = [''Could not save languages data file: [Errno 13] Permission denied'' @ [CHR 10]]"
proof -
  have f: "write_fault unwritable_world = OpenFails ''[Errno 13] Permission denied''"
    by code_simp
  have m: "merged_languages unwritable_world
     = Inr (fmap_of_list
             [(''en'', PTuple [PStr (ustr ''English''), PStr (ustr ''English'')]),
              (''fr'', PList [PStr (ustr ''French''), PStr (ustr ''Fran'' @ [231] @ ustr ''ais'')])])"
    by code_simp
  show ?thesis
    using f m open_failure_leaves_files [OF f] by simp
qed

text \<open>
  The claim as stated fails when the write fails after the file was opened: mode
  \<^verbatim>\<open>'w'\<close> has emptied the file by then, and the previous contents are gone.
\<close>

theorem failed_write_empties_file:
  "files full_disk_world (datafile full_disk_world)
     = Object [(''en'', JArray [JString (ustr ''English''), JString (ustr ''English'')]),
               (''fr'', JArray [JString (ustr ''French''), JString (ustr ''Fran'' @ [231] @ ustr ''ais'')])]
   \<and> write_fault full_disk_world = WriteFails ''[Errno 28] No space left on device''
   \<and> stderr (script full_disk_world)
       = [''Could not save languages data file: [Errno 28] No space left on device'' @ [CHR 10]]
   \<and> files_end (script full_disk_world) (datafile full_disk_world) = NotJson"
  by code_simp

section \<open>Sources and the merged dictionary\<close>

lemma registry_locale_None:
  "getAvailableLocales (registry_locale r s None) = locale_codes r"
  by (simp add: registry_locale_def)

lemma Locale_init_icu:
  "Locale_init w cd (Some ''icu'') =
     (case mod_icu w of
        Some r \<Rightarrow> Inr (registry_locale r ''icu'' cd)
      | None \<Rightarrow>
          (case mod_PyICU w of
             Some r \<Rightarrow> Inr (registry_locale r ''icu'' cd)
           | None \<Rightarrow> Inl (ImportError ([CHR 39] @ ''icu'' @ [CHR 39] @ '' requires icu or PyICU module''))))"
  by (simp add: Locale_init_def getAvailableSources_def format_source_def Let_def split: option.splits)

lemma Locale_init_babel:
  "Locale_init w cd (Some ''babel'') =
     (case mod_babel w of
        None \<Rightarrow> Inl (ImportError ([CHR 39] @ ''babel'' @ [CHR 39] @ '' requires babel module''))
      | Some r \<Rightarrow> Inr (registry_locale r ''babel'' cd))"
  by (simp add: Locale_init_def getAvailableSources_def format_source_def Let_def split: option.splits)

lemma Locale_init_pofiles:
  "Locale_init w cd (Some ''pofiles'') = pofiles_locale w cd"
  by (simp add: Locale_init_def getAvailableSources_def Let_def)

lemma collect_registry:
  "Locale_init w None src = Inr l0 \<Longrightarrow>
   (\<And>c. \<exists>l. Locale_init w (Some c) src = Inr l) \<Longrightarrow>
   \<exists>out'. collect w tt src cs out = Inr out'"
proof (induction cs arbitrary: out)
  case Nil
  then show ?case by simp
next
  case (Cons c cs)
  from Cons.prems(2) obtain l where l: "Locale_init w (Some c) src = Inr l" by blast
  show ?case
    using Cons.IH [OF Cons.prems] l by (simp add: Let_def)
qed

lemma getLanguages_icu_available:
  assumes "mod_icu w \<noteq> None \<or> mod_PyICU w \<noteq> None"
  shows "\<exists>out. getLanguages w locales tt (Some ''icu'') = Inr out"
proof -
  have all: "\<exists>l. Locale_init w cd (Some ''icu'') = Inr l" for cd
    using assms by (auto simp: Locale_init_icu split: option.splits)
  obtain l0 where l0: "Locale_init w None (Some ''icu'') = Inr l0"
    using all by blast
  show ?thesis
    unfolding getLanguages_def using l0 collect_registry [OF l0] all
    by (simp add: Let_def)
qed

lemma getLanguages_icu_unavailable:
  assumes "mod_icu w = None" and "mod_PyICU w = None"
  shows "\<exists>m. getLanguages w locales tt (Some ''icu'') = Inl (ImportError m)"
  using assms by (simp add: getLanguages_def Locale_init_icu)

lemma getLanguages_babel_available:
  assumes "mod_babel w \<noteq> None"
  shows "\<exists>out. getLanguages w locales tt (Some ''babel'') = Inr out"
proof -
  have all: "\<exists>l. Locale_init w cd (Some ''babel'') = Inr l" for cd
    using assms by (auto simp: Locale_init_babel split: option.splits)
  obtain l0 where l0: "Locale_init w None (Some ''babel'') = Inr l0"
    using all by blast
  show ?thesis
    unfolding getLanguages_def using l0 collect_registry [OF l0] all
    by (simp add: Let_def)
qed

lemma getLanguages_babel_unavailable:
  assumes "mod_babel w = None"
  shows "\<exists>m. getLanguages w locales tt (Some ''babel'') = Inl (ImportError m)"
  using assms by (simp add: getLanguages_def Locale_init_babel)

lemma first_source_registries:
  "first_source w (butlast getAvailableSources) =
     (if mod_icu w = None \<and> mod_PyICU w = None then
        (if mod_babel w = None then Inr fmempty
         else getLanguages w [] True (Some ''babel''))
      else getLanguages w [] True (Some ''icu''))"
proof (cases "mod_icu w = None \<and> mod_PyICU w = None")
  case True
  then obtain m where icu: "getLanguages w [] True (Some ''icu'') = Inl (ImportError m)"
    using getLanguages_icu_unavailable by blast
  show ?thesis
  proof (cases "mod_babel w = None")
    case b: True
    then obtain m' where "getLanguages w [] True (Some ''babel'') = Inl (ImportError m')"
      using getLanguages_babel_unavailable by blast
    with icu True b show ?thesis by (auto simp: getAvailableSources_def)
  next
    case b: False
    then obtain out where "getLanguages w [] True (Some ''babel'') = Inr out"
      using getLanguages_babel_available by blast
    with icu True b show ?thesis by (auto simp: getAvailableSources_def)
  qed
next
  case False
  then obtain out where "getLanguages w [] True (Some ''icu'') = Inr out"
    using getLanguages_icu_available [of w] by blast
  with False show ?thesis by (auto simp: getAvailableSources_def)
qed

lemma last_source: "last getAvailableSources = ''pofiles''"
  by (simp add: getAvailableSources_def)

lemma merged_languages_loaded:
  assumes "first_source w (butlast getAvailableSources) = Inr seed"
      and "loadLanguagesData (files w) (datafile w) = Inr persisted"
      and "getLanguages w [] True (Some ''pofiles'') = Inr translations"
  shows "merged_languages w = Inr (seed ++\<^sub>f persisted ++\<^sub>f translations)"
  using assms by (simp add: merged_languages_def last_source)

lemma merged_languages_absent:
  assumes "first_source w (butlast getAvailableSources) = Inr seed"
      and "files w (datafile w) = Absent"
      and "getLanguages w [] True (Some ''pofiles'') = Inr translations"
  shows "merged_languages w = Inr (seed ++\<^sub>f translations)"
  using assms by (simp add: merged_languages_def last_source loadLanguagesData_def)

lemma script_saved_file:
  "merged_languages w = Inr languages \<Longrightarrow> write_fault w = NoFault \<Longrightarrow>
   files_end (script w) (datafile w) = Object (dump_object languages)"
  by (simp add: script_returns main_saved)

lemma script_exit_ok:
  "merged_languages w = Inr languages \<Longrightarrow> exit_code (script w) = 0"
  by (simp add: script_returns)

section \<open>Precedence of the sources\<close>

text \<open>
  Claim C2. When the registry loop gives \<open>seed\<close>, the data file loads as
  \<open>persisted\<close> and the translation files give \<open>translations\<close>, the dictionary that
  \<^verbatim>\<open>main\<close> saves holds, for every key, the value of the translation files when they
  define the key, else the value of the persisted file when it defines the key, else
  the value of the registry seed; and that dictionary is what the data file holds
  after a run whose write succeeds.
\<close>

theorem merge_precedence:
  assumes "first_source w (butlast getAvailableSources) = Inr seed"
      and "loadLanguagesData (files w) (datafile w) = Inr persisted"
      and "getLanguages w [] True (Some ''pofiles'') = Inr translations"
  shows "\<exists>languages.
           merged_languages w = Inr languages
           \<and> (\<forall>k. fmlookup languages k =
                  (if k |\<in>| fmdom translations then fmlookup translations k
                   else if k |\<in>| fmdom persisted then fmlookup persisted k
                   else fmlookup seed k))
           \<and> (write_fault w = NoFault \<longrightarrow>
                  files_end (script w) (datafile w) = Object (dump_object languages))"
proof -
  let ?l = "seed ++\<^sub>f persisted ++\<^sub>f translations"
  have m: "merged_languages w = Inr ?l"
    using assms by (rule merged_languages_loaded)
  have "fmlookup ?l k =
          (if k |\<in>| fmdom translations then fmlookup translations k
           else if k |\<in>| fmdom persisted then fmlookup persisted k
           else fmlookup seed k)" for k
    by simp
  moreover have "write_fault w = NoFault \<longrightarrow>
      files_end (script w) (datafile w) = Object (dump_object ?l)"
    using m by (simp add: script_saved_file)
  ultimately show ?thesis using m by blast
qed

theorem merge_precedence_witness:
  "first_source precedence_world (butlast getAvailableSources)
     = Inr (fmap_of_list
             [(''de'', PTuple [PStr (ustr ''German''), PStr (ustr ''Deutsch'')]),
              (''en'', PTuple [PStr (ustr ''English''), PStr (ustr ''English'')]),
              (''fr'', PTuple [PStr (ustr ''French''), PStr (ustr ''Francais'')])])
   \<and> loadLanguagesData (files precedence_world) (datafile precedence_world)
       = Inr (fmap_of_list
               [(''en'', PList [PStr (ustr ''Anglais''), PStr (ustr ''anglais'')]),
                (''fr'', PList [PStr (ustr ''Francais''), PStr (ustr ''francais'')])])
   \<and> getLanguages precedence_world [] True (Some ''pofiles'')
       = Inr (fmap_of_list [(''en'', PTuple [PStr (ustr ''English''), PStr (ustr ''English'')])])
   \<and> files_end (script precedence_world) (datafile precedence_world)
       = Object [(''de'', JArray [JString (ustr ''German''), JString (ustr ''Deutsch'')]),
                 (''en'', JArray [JString (ustr ''English''), JString (ustr ''English'')]),
                 (''fr'', JArray [JString (ustr ''Francais''), JString (ustr ''francais'')])]"
proof -
  have s: "first_source precedence_world (butlast getAvailableSources)
     = Inr (fmap_of_list
             [(''de'', PTuple [PStr (ustr ''German''), PStr (ustr ''Deutsch'')]),
              (''en'', PTuple [PStr (ustr ''English''), PStr (ustr ''English'')]),
              (''fr'', PTuple [PStr (ustr ''French''), PStr (ustr ''Francais'')])])"
    by code_simp
  have p: "loadLanguagesData (files precedence_world) (datafile precedence_world)
       = Inr (fmap_of_list
               [(''en'', PList [PStr (ustr ''Anglais''), PStr (ustr ''anglais'')]),
                (''fr'', PList [PStr (ustr ''Francais''), PStr (ustr ''francais'')])])"
    by code_simp
  have t: "getLanguages precedence_world [] True (Some ''pofiles'')
       = Inr (fmap_of_list [(''en'', PTuple [PStr (ustr ''English''), PStr (ustr ''English'')])])"
    by code_simp
  have f: "files_end (script precedence_world) (datafile precedence_world)
       = Object [(''de'', JArray [JString (ustr ''German''), JString (ustr ''Deutsch'')]),
                 (''en'', JArray [JString (ustr ''English''), JString (ustr ''English'')]),
                 (''fr'', JArray [JString (ustr ''Francais''), JString (ustr ''francais'')])]"
    by code_simp
  from merge_precedence [OF s p t] s p t f show ?thesis by simp
qed

section \<open>The registry seed\<close>

text \<open>
  Claim C6. The first loop of \<^verbatim>\<open>main\<close> yields what \<^verbatim>\<open>getLanguages\<close> returns for
  \<^verbatim>\<open>icu\<close> when \<^verbatim>\<open>icu\<close> or \<^verbatim>\<open>PyICU\<close> can be imported (whatever \<^verbatim>\<open>babel\<close> would
  give), else what it returns for \<^verbatim>\<open>babel\<close> when that can be imported, else the empty
  dictionary. With no locale library at all the run still goes through: the merged
  dictionary is the persisted data overwritten by the translation files, the exit
  status is 0 and, when the write succeeds, the file holds that dictionary.
\<close>

theorem first_available_registry_seeds:
  "first_source w (butlast getAvailableSources) =
     (if mod_icu w = None \<and> mod_PyICU w = None then
        (if mod_babel w = None then Inr fmempty
         else getLanguages w [] True (Some ''babel''))
      else getLanguages w [] True (Some ''icu''))
   \<and> (mod_icu w = None \<and> mod_PyICU w = None \<and> mod_babel w = None \<longrightarrow>
        (\<forall>persisted translations.
            loadLanguagesData (files w) (datafile w) = Inr persisted \<longrightarrow>
            getLanguages w [] True (Some ''pofiles'') = Inr translations \<longrightarrow>
              merged_languages w = Inr (persisted ++\<^sub>f translations)
              \<and> exit_code (script w) = 0
              \<and> (write_fault w = NoFault \<longrightarrow>
                    files_end (script w) (datafile w)
                      = Object (dump_object (persisted ++\<^sub>f translations)))))"
proof (intro conjI impI allI)
  show "first_source w (butlast getAvailableSources) =
     (if mod_icu w = None \<and> mod_PyICU w = None then
        (if mod_babel w = None then Inr fmempty
         else getLanguages w [] True (Some ''babel''))
      else getLanguages w [] True (Some ''icu''))"
    by (rule first_source_registries)
next
  fix persisted tr
  assume none: "mod_icu w = None \<and> mod_PyICU w = None \<and> mod_babel w = None"
    and p: "loadLanguagesData (files w) (datafile w) = Inr persisted"
    and t: "getLanguages w [] True (Some ''pofiles'') = Inr tr"
  have "first_source w (butlast getAvailableSources) = Inr fmempty"
    using none by (simp add: first_source_registries)
  from merged_languages_loaded [OF this p t]
  have m: "merged_languages w = Inr (persisted ++\<^sub>f tr)" by simp
  then show "merged_languages w = Inr (persisted ++\<^sub>f tr)" .
  from m show "exit_code (script w) = 0" by (rule script_exit_ok)
  assume "write_fault w = NoFault"
  with m show "files_end (script w) (datafile w) = Object (dump_object (persisted ++\<^sub>f tr))"
    by (rule script_saved_file)
qed

theorem first_available_registry_seeds_witness:
  "mod_icu bare_world = None \<and> mod_PyICU bare_world = None \<and> mod_babel bare_world = None
   \<and> first_source bare_world (butlast getAvailableSources) = Inr fmempty
   \<and> exit_code (script bare_world) = 0
   \<and> files_end (script bare_world) (datafile bare_world)
       = Object [(''en'', JArray [JString (ustr ''English''), JString (ustr ''English'')]),
                 (''fr'', JArray [JString (ustr ''French''), JString (ustr ''Fran'' @ [231] @ ustr ''ais'')])]
   \<and> first_source precedence_world (butlast getAvailableSources)
       = getLanguages precedence_world [] True (Some ''icu'')"
proof -
  have n: "mod_icu bare_world = None \<and> mod_PyICU bare_world = None \<and> mod_babel bare_world = None"
    by (simp add: bare_world_def example_world_def)
  have f: "files_end (script bare_world) (datafile bare_world)
       = Object [(''en'', JArray [JString (ustr ''English''), JString (ustr ''English'')]),
                 (''fr'', JArray [JString (ustr ''French''), JString (ustr ''Fran'' @ [231] @ ustr ''ais'')])]"
    by code_simp
  have e: "exit_code (script bare_world) = 0"
    by code_simp
  have i: "mod_icu precedence_world = Some wide_registry"
    by (simp add: precedence_world_def)
  from first_available_registry_seeds [of bare_world] n
  have "first_source bare_world (butlast getAvailableSources) = Inr fmempty"
    by simp
  moreover from first_available_registry_seeds [of precedence_world] i
  have "first_source precedence_world (butlast getAvailableSources)
       = getLanguages precedence_world [] True (Some ''icu'')"
    by simp
  ultimately show ?thesis using n f e by simp
qed

section \<open>A missing data file\<close>

lemma po_locales_files: "po_locales (w\<lparr>files := f\<rparr>) = po_locales w"
  by (simp add: po_locales_def)

lemma pofiles_locale_files: "pofiles_locale (w\<lparr>files := f\<rparr>) cd = pofiles_locale w cd"
  by (simp add: pofiles_locale_def po_locales_files
        split: option.splits list.splits dirent.splits sum.splits)

lemma Locale_init_files: "Locale_init (w\<lparr>files := f\<rparr>) cd src = Locale_init w cd src"
  by (simp add: Locale_init_def pofiles_locale_files Let_def cong: option.case_cong)

lemma collect_files:
  "collect (w\<lparr>files := f\<rparr>) tt src cs out = collect w tt src cs out"
  by (induction cs arbitrary: out) (auto simp: Locale_init_files Let_def split: sum.splits)

lemma getLanguages_files:
  "getLanguages (w\<lparr>files := f\<rparr>) locales tt src = getLanguages w locales tt src"
  by (simp add: getLanguages_def Locale_init_files collect_files Let_def cong: sum.case_cong)

lemma first_source_files:
  "first_source (w\<lparr>files := f\<rparr>) ss = first_source w ss"
  by (induction ss) (simp_all add: getLanguages_files cong: sum.case_cong pyerr.case_cong)

lemma datafile_files: "datafile (w\<lparr>files := f\<rparr>) = datafile w"
  by (simp add: datafile_def)

lemma merged_absent_as_empty:
  assumes "files w (datafile w) = Absent"
  shows "merged_languages w = merged_languages (w\<lparr>files := (files w)(datafile w := Object [])\<rparr>)"
proof (cases "first_source w (butlast getAvailableSources)")
  case (Inl e)
  then show ?thesis
    by (simp add: merged_languages_def first_source_files)
next
  case (Inr seed)
  then show ?thesis
    using assms
    by (simp add: merged_languages_def first_source_files getLanguages_files datafile_files
          loadLanguagesData_def load_object_def)
qed

text \<open>
  Claim C7. When there is no data file, \<^verbatim>\<open>main\<close> merges exactly as it does with a
  data file that holds the empty object; the \<^verbatim>\<open>IOError\<close> of \<^verbatim>\<open>open\<close> does not leave
  \<^verbatim>\<open>main\<close>. If the registry loop and the translation files give their dictionaries, the
  merged dictionary is the seed overwritten by the translations, \<^verbatim>\<open>main\<close> raises
  nothing, the exit status is 0 and, when the write succeeds, the file holds that
  dictionary.
\<close>

theorem missing_data_file_is_empty_set:
  assumes "files w (datafile w) = Absent"
  shows "merged_languages w = merged_languages (w\<lparr>files := (files w)(datafile w := Object [])\<rparr>)
       \<and> (\<forall>seed translations.
             first_source w (butlast getAvailableSources) = Inr seed \<longrightarrow>
             getLanguages w [] True (Some ''pofiles'') = Inr translations \<longrightarrow>
               merged_languages w = Inr (seed ++\<^sub>f translations)
               \<and> raised (main w) = None
               \<and> exit_code (script w) = 0
               \<and> (write_fault w = NoFault \<longrightarrow>
                     files_end (script w) (datafile w)
                       = Object (dump_object (seed ++\<^sub>f translations))))"
proof (intro conjI allI impI)
  show "merged_languages w = merged_languages (w\<lparr>files := (files w)(datafile w := Object [])\<rparr>)"
    using assms by (rule merged_absent_as_empty)
next
  fix seed tr
  assume s: "first_source w (butlast getAvailableSources) = Inr seed"
    and t: "getLanguages w [] True (Some ''pofiles'') = Inr tr"
  from merged_languages_absent [OF s assms t]
  show m: "merged_languages w = Inr (seed ++\<^sub>f tr)" .
  from m show "raised (main w) = None" by (rule main_returns)
  from m show "exit_code (script w) = 0" by (rule script_exit_ok)
  assume "write_fault w = NoFault"
  with m show "files_end (script w) (datafile w) = Object (dump_object (seed ++\<^sub>f tr))"
    by (rule script_saved_file)
qed

theorem missing_data_file_is_empty_set_witness:
  "files fresh_world (datafile fresh_world) = Absent
   \<and> merged_languages fresh_world
       = Inr (fmap_of_list [(''en'', PTuple [PStr (ustr ''English''), PStr (ustr ''English'')])])
   \<and> raised (main fresh_world) = None
   \<and> exit_code (script fresh_world) = 0
   \<and> files_end (script fresh_world) (datafile fresh_world)
       = Object [(''en'', JArray [JString (ustr ''English''), JString (ustr ''English'')])]"
proof -
  have a: "files fresh_world (datafile fresh_world) = Absent"
    by code_simp
  have s: "first_source fresh_world (butlast getAvailableSources) = Inr fmempty"
    by code_simp
  have t: "getLanguages fresh_world [] True (Some ''pofiles'')
             = Inr (fmap_of_list [(''en'', PTuple [PStr (ustr ''English''), PStr (ustr ''English'')])])"
    by code_simp
  have n: "write_fault fresh_world = NoFault"
    by code_simp
  have d: "dump_object (fmap_of_list [(''en'', PTuple [PStr (ustr ''English''), PStr (ustr ''English'')])])
             = [(''en'', JArray [JString (ustr ''English''), JString (ustr ''English'')])]"
    by code_simp
  from missing_data_file_is_empty_set [OF a, THEN conjunct2] s t n d a show ?thesis
    by simp
qed

section \<open>What \<^verbatim>\<open>getLanguages\<close> stores\<close>

lemma title_from_Nil: "(title_from db p s = []) = (s = [])"
  by (cases s) simp_all

lemma title_Nil: "(title db s = []) = (s = [])"
  by (simp add: title_def title_from_Nil)

lemma truthy_title: "truthy (map_option (title db) n) = truthy n"
  by (cases n) (simp_all add: truthy_def title_Nil)

text \<open>
  \<^verbatim>\<open>if native: native = native.title()\<close> leaves \<^verbatim>\<open>None\<close> and the empty string as
  they are, and so does \<open>map_option (title db)\<close>.
\<close>

lemma stored_native:
  "(if truthy n then map_option (title db) n else n) = map_option (title db) n"
  by (cases n) (simp_all add: truthy_def title_def)

lemma collect_entries:
  assumes "collect w tt src cs out0 = Inr out" and "fmlookup out c = Some v"
  shows "fmlookup out0 c = Some v
       \<or> (\<exists>l. c \<in> set cs \<and> Locale_init w (Some c) src = Inr l
              \<and> (truthy (english_name l) \<or> truthy (native_name l))
              \<and> v = entry tt (english_name l)
                     (if truthy (native_name l) then map_option (title (ucd w)) (native_name l)
                      else native_name l))"
  using assms
proof (induction cs arbitrary: out0)
  case Nil
  then show ?case by simp
next
  case (Cons a cs)
  from Cons.prems(1) obtain l where l: "Locale_init w (Some a) src = Inr l"
    by (cases "Locale_init w (Some a) src") simp_all
  show ?case
  proof (cases "truthy (english_name l) \<or> truthy (native_name l)")
    case False
    with Cons.prems(1) l have "collect w tt src cs out0 = Inr out"
      by (auto simp: Let_def split: if_splits)
    from Cons.IH [OF this Cons.prems(2)] show ?thesis by auto
  next
    case True
    let ?v = "entry tt (english_name l)
                (if truthy (native_name l) then map_option (title (ucd w)) (native_name l)
                 else native_name l)"
    from True Cons.prems(1) l have "collect w tt src cs (fmupd a ?v out0) = Inr out"
      by (auto simp: Let_def split: if_splits)
    from Cons.IH [OF this Cons.prems(2)]
    show ?thesis
    proof
      assume "fmlookup (fmupd a ?v out0) c = Some v"
      then show ?thesis using l True by (cases "a = c") auto
    next
      assume "\<exists>l. c \<in> set cs \<and> Locale_init w (Some c) src = Inr l
              \<and> (truthy (english_name l) \<or> truthy (native_name l))
              \<and> v = entry tt (english_name l)
                     (if truthy (native_name l) then map_option (title (ucd w)) (native_name l)
                      else native_name l)"
      then show ?thesis by auto
    qed
  qed
qed

lemma getLanguages_entries:
  assumes "getLanguages w locales tt src = Inr out" and "fmlookup out c = Some v"
  shows "\<exists>l. Locale_init w (Some c) src = Inr l
            \<and> (truthy (english_name l) \<or> truthy (native_name l))
            \<and> v = entry tt (english_name l)
                   (if truthy (native_name l) then map_option (title (ucd w)) (native_name l)
                    else native_name l)"
proof -
  from assms(1) obtain cs where "collect w tt src cs fmempty = Inr out"
    by (auto simp: getLanguages_def Let_def split: sum.splits)
  from collect_entries [OF this assms(2)] show ?thesis by auto
qed

text \<open>
  Claim C10. Whatever the source, the selection and the shape of the values, every
  entry that \<^verbatim>\<open>getLanguages\<close> returns was built from an English name and a native name
  of which at least one is a non-empty string; and a code for which the source gives
  two names that are both \<^verbatim>\<open>None\<close> or empty has no entry in the result.
\<close>

theorem getLanguages_omits_nameless:
  assumes "getLanguages w locales tupletype src = Inr output"
  shows "(\<forall>c v. fmlookup output c = Some v \<longrightarrow>
            (\<exists>english native. v = entry tupletype english native
                \<and> (truthy english \<or> truthy native)))
       \<and> (\<forall>c l. Locale_init w (Some c) src = Inr l \<longrightarrow>
            \<not> truthy (english_name l) \<longrightarrow> \<not> truthy (native_name l) \<longrightarrow>
            fmlookup output c = None)"
proof (intro conjI allI impI)
  fix c v
  assume "fmlookup output c = Some v"
  from getLanguages_entries [OF assms this]
  obtain l :: locale_object where t: "truthy (english_name l) \<or> truthy (native_name l)"
    and v: "v = entry tupletype (english_name l)
                  (if truthy (native_name l) then map_option (title (ucd w)) (native_name l)
                   else native_name l)"
    by blast
  let ?n = "if truthy (native_name l) then map_option (title (ucd w)) (native_name l) else native_name l"
  have "truthy ?n = truthy (native_name l)"
    by (simp add: truthy_title)
  with t v show "\<exists>english native. v = entry tupletype english native
                \<and> (truthy english \<or> truthy native)"
    by blast
next
  fix c l
  assume l: "Locale_init w (Some c) src = Inr l"
    and e: "\<not> truthy (english_name l)" and n: "\<not> truthy (native_name l)"
  show "fmlookup output c = None"
  proof (cases "fmlookup output c")
    case None
    then show ?thesis .
  next
    case (Some v)
    from getLanguages_entries [OF assms Some] l e n show ?thesis by auto
  qed
qed

theorem getLanguages_omits_nameless_witness:
  "getLanguages sparse_world [] True (Some ''icu'')
     = Inr (fmap_of_list [(''en'', PTuple [PStr (ustr ''English''), PStr (ustr ''English'')])])
   \<and> english_of sparse_registry ''xx'' = Some []
   \<and> native_of sparse_registry ''xx'' = None
   \<and> fmlookup (fmap_of_list [(''en'', PTuple [PStr (ustr ''English''), PStr (ustr ''English'')])]) ''xx'' = None
   \<and> (\<exists>english native.
         PTuple [PStr (ustr ''English''), PStr (ustr ''English'')] = entry True english native
         \<and> (truthy english \<or> truthy native))"
proof -
  have g: "getLanguages sparse_world [] True (Some ''icu'')
     = Inr (fmap_of_list [(''en'', PTuple [PStr (ustr ''English''), PStr (ustr ''English'')])])"
    by code_simp
  have x: "english_of sparse_registry ''xx'' = Some [] \<and> native_of sparse_registry ''xx'' = None"
    by (simp add: sparse_registry_def)
  have "fmlookup (fmap_of_list [(''en'', PTuple [PStr (ustr ''English''), PStr (ustr ''English'')])]) ''en''
          = Some (PTuple [PStr (ustr ''English''), PStr (ustr ''English'')])"
    by simp
  with getLanguages_omits_nameless [OF g]
  have "\<exists>english native.
         PTuple [PStr (ustr ''English''), PStr (ustr ''English'')] = entry True english native
         \<and> (truthy english \<or> truthy native)"
    by blast
  with g x show ?thesis by simp
qed

section \<open>Title case of the native names\<close>

lemma first_source_result:
  "first_source w ss = Inr seed \<Longrightarrow>
   seed = fmempty \<or> (\<exists>s. getLanguages w [] True (Some s) = Inr seed)"
proof (induction ss)
  case Nil
  then show ?case by simp
next
  case (Cons s ss)
  show ?case
  proof (cases "getLanguages w [] True (Some s)")
    case (Inr l)
    with Cons.prems show ?thesis by auto
  next
    case (Inl e)
    with Cons show ?thesis by (cases e) auto
  qed
qed

lemma merged_languages_cases:
  assumes "merged_languages w = Inr languages"
  obtains seed persisted tr where
      "first_source w (butlast getAvailableSources) = Inr seed"
      "loadLanguagesData (files w) (datafile w) = Inr persisted"
      "getLanguages w [] True (Some ''pofiles'') = Inr tr"
      "languages = seed ++\<^sub>f persisted ++\<^sub>f tr"
  | seed m tr where
      "first_source w (butlast getAvailableSources) = Inr seed"
      "loadLanguagesData (files w) (datafile w) = Inl (IOError m)"
      "getLanguages w [] True (Some ''pofiles'') = Inr tr"
      "languages = seed ++\<^sub>f tr"
  using assms
  by (auto simp: merged_languages_def last_source split: sum.splits pyerr.splits)


lemma getLanguages_stored:
  assumes "getLanguages w locales tt src = Inr out" and "fmlookup out c = Some v"
  shows "\<exists>l. Locale_init w (Some c) src = Inr l
            \<and> v = entry tt (english_name l) (map_option (title (ucd w)) (native_name l))"
  using getLanguages_entries [OF assms] by (auto simp: stored_native)

text \<open>What \<^verbatim>\<open>title()\<close> does to each character of a string.\<close>

lemma title_from_length: "length (title_from db p s) = length s"
  by (induction s arbitrary: p) simp_all

lemma title_from_nth:
  "i < length s \<Longrightarrow>
   title_from db p s ! i =
     (if (if i = 0 then p else cased db (s ! (i - 1))) then tolower db (s ! i)
      else totitle db (s ! i))"
proof (induction s arbitrary: p i)
  case Nil
  then show ?case by simp
next
  case (Cons ch rest)
  show ?case
  proof (cases i)
    case 0
    then show ?thesis by simp
  next
    case (Suc j)
    with Cons.prems have "j < length rest" by simp
    from Cons.IH [OF this, of "cased db ch"] Suc show ?thesis
      by (cases j) simp_all
  qed
qed

lemma title_nth:
  "i < length s \<Longrightarrow>
   title db s ! i =
     (if 0 < i \<and> cased db (s ! (i - 1)) then tolower db (s ! i) else totitle db (s ! i))"
  by (simp add: title_def title_from_nth)

text \<open>
  Claim C4, as amended. Every entry of the dictionary that \<^verbatim>\<open>main\<close> saves is either
  the pair that \<^verbatim>\<open>getLanguages\<close> built for that code from a locale source, whose
  native name is \<^verbatim>\<open>title()\<close> of the name the source gives (\<^verbatim>\<open>None\<close> stays \<^verbatim>\<open>None\<close>),
  or the entry that the persisted file holds for that code, kept as it was loaded.
  The same holds of every entry that \<^verbatim>\<open>getLanguages\<close> returns, for any source,
  selection and shape of the values. And \<^verbatim>\<open>title()\<close> keeps the length of a name and
  puts each character in title case when it starts the name or follows an uncased
  character, and in lower case when it follows a cased one.
\<close>

theorem stored_native_names:
  assumes "merged_languages w = Inr languages" and "fmlookup languages c = Some v"
  shows "((\<exists>src l. Locale_init w (Some c) src = Inr l
             \<and> v = PTuple [name_val (english_name l),
                           name_val (map_option (title (ucd w)) (native_name l))])
          \<or> (\<exists>persisted. loadLanguagesData (files w) (datafile w) = Inr persisted
                \<and> fmlookup persisted c = Some v))
       \<and> (\<forall>locales tupletype src output c' v'.
             getLanguages w locales tupletype src = Inr output \<longrightarrow>
             fmlookup output c' = Some v' \<longrightarrow>
               (\<exists>l. Locale_init w (Some c') src = Inr l
                   \<and> v' = entry tupletype (english_name l)
                            (map_option (title (ucd w)) (native_name l))))
       \<and> (\<forall>s. length (title (ucd w) s) = length s
             \<and> (\<forall>i. i < length s \<longrightarrow>
                   title (ucd w) s ! i =
                     (if 0 < i \<and> cased (ucd w) (s ! (i - 1)) then tolower (ucd w) (s ! i)
                      else totitle (ucd w) (s ! i))))"
proof (intro conjI)
  have from_source: "\<exists>src l. Locale_init w (Some c) src = Inr l
             \<and> v = PTuple [name_val (english_name l),
                           name_val (map_option (title (ucd w)) (native_name l))]"
    if "getLanguages w [] True src = Inr out" and "fmlookup out c = Some v" for src out
    using getLanguages_stored [OF that] by (auto simp: entry_def)
  have from_seed: "\<exists>src l. Locale_init w (Some c) src = Inr l
             \<and> v = PTuple [name_val (english_name l),
                           name_val (map_option (title (ucd w)) (native_name l))]"
    if "first_source w (butlast getAvailableSources) = Inr seed" and "fmlookup seed c = Some v"
    for seed
    using first_source_result [OF that(1)] that(2) from_source by auto
  from assms(1) show "(\<exists>src l. Locale_init w (Some c) src = Inr l
             \<and> v = PTuple [name_val (english_name l),
                           name_val (map_option (title (ucd w)) (native_name l))])
          \<or> (\<exists>persisted. loadLanguagesData (files w) (datafile w) = Inr persisted
                \<and> fmlookup persisted c = Some v)"
  proof (cases rule: merged_languages_cases)
    case (1 seed persisted tr)
    from assms(2) 1(4)
    consider "fmlookup tr c = Some v" | "fmlookup persisted c = Some v" | "fmlookup seed c = Some v"
      by (auto split: if_splits)
    then show ?thesis
    proof cases
      case 1
      with \<open>getLanguages w [] True (Some ''pofiles'') = Inr tr\<close> from_source show ?thesis
        by blast
    next
      case 2
      with \<open>loadLanguagesData (files w) (datafile w) = Inr persisted\<close> show ?thesis
        by blast
    next
      case 3
      with \<open>first_source w (butlast getAvailableSources) = Inr seed\<close> from_seed show ?thesis
        by blast
    qed
  next
    case (2 seed m tr)
    from assms(2) 2(4)
    consider "fmlookup tr c = Some v" | "fmlookup seed c = Some v"
      by (auto split: if_splits)
    then show ?thesis
    proof cases
      case 1
      with \<open>getLanguages w [] True (Some ''pofiles'') = Inr tr\<close> from_source show ?thesis
        by blast
    next
      case 2
      with \<open>first_source w (butlast getAvailableSources) = Inr seed\<close> from_seed show ?thesis
        by blast
    qed
  qed
next
  show "\<forall>locales tupletype src output c' v'.
             getLanguages w locales tupletype src = Inr output \<longrightarrow>
             fmlookup output c' = Some v' \<longrightarrow>
               (\<exists>l. Locale_init w (Some c') src = Inr l
                   \<and> v' = entry tupletype (english_name l)
                            (map_option (title (ucd w)) (native_name l)))"
    using getLanguages_stored by blast
next
  show "\<forall>s. length (title (ucd w) s) = length s
             \<and> (\<forall>i. i < length s \<longrightarrow>
                   title (ucd w) s ! i =
                     (if 0 < i \<and> cased (ucd w) (s ! (i - 1)) then tolower (ucd w) (s ! i)
                      else totitle (ucd w) (s ! i)))"
  proof (intro allI conjI impI)
    fix s
    show "length (title (ucd w) s) = length s"
      by (simp add: title_def title_from_length)
  next
    fix s :: unicode and i
    assume "i < length s"
    then show "title (ucd w) s ! i =
                 (if 0 < i \<and> cased (ucd w) (s ! (i - 1)) then tolower (ucd w) (s ! i)
                  else totitle (ucd w) (s ! i))"
      by (rule title_nth)
  qed
qed

theorem stored_native_names_witness:
  "merged_languages accent_world
     = Inr (fmap_of_list
             [(''en'', PTuple [PStr (ustr ''English''), PStr (ustr ''English'')]),
              (''fr'', PList [PStr (ustr ''French''), PStr (ustr ''french'')]),
              (''pt'', PTuple [PStr (ustr ''Portuguese''),
                               PStr (ustr ''Portugu'' @ [234] @ ustr ''s'')])])
   \<and> native_of accent_registry ''pt'' = Some (ustr ''portugu'' @ [234] @ ustr ''s'')
   \<and> title (ucd accent_world) (ustr ''portugu'' @ [234] @ ustr ''s'')
       = ustr ''Portugu'' @ [234] @ ustr ''s''
   \<and> title (ucd accent_world) (ustr ''fran'' @ [231] @ ustr ''ais'')
       = ustr ''Fran'' @ [231] @ ustr ''ais''
   \<and> title (ucd accent_world) (ustr ''ENGLISH (united kingdom)'')
       = ustr ''English (United Kingdom)''
   \<and> (\<exists>l. Locale_init accent_world (Some ''pt'') (Some ''babel'') = Inr l
          \<and> PTuple [PStr (ustr ''Portuguese''), PStr (ustr ''Portugu'' @ [234] @ ustr ''s'')]
              = PTuple [name_val (english_name l),
                        name_val (map_option (title (ucd accent_world)) (native_name l))])
   \<and> loadLanguagesData (files accent_world) (datafile accent_world)
       = Inr (fmap_of_list [(''fr'', PList [PStr (ustr ''French''), PStr (ustr ''french'')])])"
proof -
  let ?pt = "PTuple [PStr (ustr ''Portuguese''), PStr (ustr ''Portugu'' @ [234] @ ustr ''s'')]"
  let ?all = "fmap_of_list
             [(''en'', PTuple [PStr (ustr ''English''), PStr (ustr ''English'')]),
              (''fr'', PList [PStr (ustr ''French''), PStr (ustr ''french'')]),
              (''pt'', ?pt)]"
  have m: "merged_languages accent_world = Inr ?all"
    by code_simp
  have l: "fmlookup ?all ''pt'' = Some ?pt"
    by code_simp
  have p: "loadLanguagesData (files accent_world) (datafile accent_world)
       = Inr (fmap_of_list [(''fr'', PList [PStr (ustr ''French''), PStr (ustr ''french'')])])"
    by code_simp
  have n: "native_of accent_registry ''pt'' = Some (ustr ''portugu'' @ [234] @ ustr ''s'')"
    by (simp add: accent_registry_def)
  have t1: "title (ucd accent_world) (ustr ''portugu'' @ [234] @ ustr ''s'')
       = ustr ''Portugu'' @ [234] @ ustr ''s''"
    by code_simp
  have t2: "title (ucd accent_world) (ustr ''fran'' @ [231] @ ustr ''ais'')
       = ustr ''Fran'' @ [231] @ ustr ''ais''"
    by code_simp
  have t3: "title (ucd accent_world) (ustr ''ENGLISH (united kingdom)'')
       = ustr ''English (United Kingdom)''"
    by code_simp
  have not_persisted: "fmlookup (fmap_of_list [(''fr'', PList [PStr (ustr ''French''), PStr (ustr ''french'')])]) ''pt'' = None"
    by code_simp
  have b: "Locale_init accent_world (Some ''pt'') (Some ''babel'')
             = Inr (registry_locale accent_registry ''babel'' (Some ''pt''))"
    by (simp add: Locale_init_babel accent_world_def)
  have "name_val (english_name (registry_locale accent_registry ''babel'' (Some ''pt'')))
          = PStr (ustr ''Portuguese'')"
    by (simp add: registry_locale_def accent_registry_def name_val_def)
  moreover have "name_val (map_option (title (ucd accent_world))
                    (native_name (registry_locale accent_registry ''babel'' (Some ''pt''))))
          = PStr (ustr ''Portugu'' @ [234] @ ustr ''s'')"
    using t1 by (simp add: registry_locale_def accent_registry_def name_val_def)
  ultimately have e: "\<exists>l. Locale_init accent_world (Some ''pt'') (Some ''babel'') = Inr l
          \<and> ?pt = PTuple [name_val (english_name l),
                        name_val (map_option (title (ucd accent_world)) (native_name l))]"
    using b by simp
  from stored_native_names [OF m l, THEN conjunct1] m n t1 t2 t3 e p show ?thesis
    by simp
qed

text \<open>
  The claim as stated fails for an entry that only the persisted file defines: its
  native name is written back as it was read, here \<^verbatim>\<open>french\<close>, which \<^verbatim>\<open>title()\<close>
  would turn into \<^verbatim>\<open>French\<close>.
\<close>

theorem persisted_native_kept_as_loaded:
  "files lowercase_world (datafile lowercase_world)
     = Object [(''fr'', JArray [JString (ustr ''French''), JString (ustr ''french'')])]
   \<and> exit_code (script lowercase_world) = 0
   \<and> files_end (script lowercase_world) (datafile lowercase_world)
       = Object [(''en'', JArray [JString (ustr ''English''), JString (ustr ''English'')]),
                 (''fr'', JArray [JString (ustr ''French''), JString (ustr ''french'')])]
   \<and> title (ucd lowercase_world) (ustr ''french'') = ustr ''French''
   \<and> ustr ''french'' \<noteq> ustr ''French''
   \<and> \<not> title_cased (ucd lowercase_world) (ustr ''french'')"
  by code_simp

section \<open>Translation catalogs\<close>

lemma split_first_catalog: "split_first (''messages_'' @ c @ ''.po'') = ''messages''"
  by (simp add: split_first_def)

lemma split_second_root: "split_second (''messages_'' @ c) = Some c"
  by (simp add: split_second_def)

lemma splitext_catalog: "splitext (''messages_'' @ c @ ''.po'') = (''messages_'' @ c, ''.po'')"
  by (simp add: splitext_def Let_def)

lemma splitext_append:
  "splitext p = (r, e) \<Longrightarrow> r @ e = p"
proof -
  assume s: "splitext p = (r, e)"
  let ?P = "\<lambda>c. c \<noteq> CHR ''.''"
  show ?thesis
  proof (cases "CHR ''.'' \<in> set p")
    case False
    with s show ?thesis by (simp add: splitext_def)
  next
    case True
    then have "dropWhile ?P (rev p) \<noteq> []"
      by (simp add: dropWhile_eq_Nil_conv) 
    then obtain d ds where d: "dropWhile ?P (rev p) = d # ds"
      by (cases "dropWhile ?P (rev p)") auto
    then have "\<not> ?P d"
      using hd_dropWhile [of ?P "rev p"] by auto
    then have dd: "d = CHR ''.''" by simp
    have "rev p = takeWhile ?P (rev p) @ dropWhile ?P (rev p)"
      by simp
    then have "rev (rev p) = rev (takeWhile ?P (rev p) @ CHR ''.'' # ds)"
      using d dd by simp
    then have p: "p = rev ds @ CHR ''.'' # rev (takeWhile ?P (rev p))"
      by simp
    show ?thesis
    proof (cases "\<exists>c \<in> set (rev ds). c \<noteq> CHR ''.''")
      case True
      with s \<open>CHR ''.'' \<in> set p\<close> d have "r = rev ds" and "e = CHR ''.'' # rev (takeWhile ?P (rev p))"
        by (auto simp: splitext_def Let_def)
      with p show ?thesis by simp
    next
      case False
      with s \<open>CHR ''.'' \<in> set p\<close> d have "r = p" and "e = []"
        by (auto simp: splitext_def Let_def)
      then show ?thesis by simp
    qed
  qed
qed

lemma catalog_name:
  assumes "split_first f = ''messages''" and "snd (splitext f) = ''.po''"
  shows "\<exists>c. split_second (fst (splitext f)) = Some c \<and> f = ''messages_'' @ c @ ''.po''"
proof -
  obtain r where r: "splitext f = (r, ''.po'')"
    using assms(2) by (cases "splitext f") simp
  then have f: "f = r @ ''.po''"
    using splitext_append by fastforce
  let ?P = "\<lambda>c. c \<noteq> CHR ''_''"
  have tw: "takeWhile ?P f = ''messages''"
    using assms(1) by (simp add: split_first_def)
  have "f = takeWhile ?P f @ dropWhile ?P f"
    by simp
  with tw have f2: "f = ''messages'' @ dropWhile ?P f"
    by simp
  have "dropWhile ?P f \<noteq> []"
  proof
    assume "dropWhile ?P f = []"
    with f2 have "f = ''messages''" by simp
    with f show False by (auto simp: append_eq_Cons_conv Cons_eq_append_conv)
  qed
  then obtain d ds where d: "dropWhile ?P f = d # ds"
    by (cases "dropWhile ?P f") auto
  then have "\<not> ?P d"
    using hd_dropWhile [of ?P f] by auto
  then have "d = CHR ''_''" by simp
  with f2 d have f3: "f = ''messages_'' @ ds"
    by simp
  with f have "r @ ''.po'' = ''messages_'' @ ds"
    by simp
  then obtain c where c: "r = ''messages_'' @ c" "ds = c @ ''.po''"
    by (auto simp: append_eq_append_conv2 append_eq_Cons_conv Cons_eq_append_conv)
  have "split_second (fst (splitext f)) = Some c"
    using r c split_second_root [of c] by simp
  with f3 c show ?thesis by simp
qed

lemma po_locales_member:
  assumes "fmlookup (dir_entries w) (''messages_'' @ c @ ''.po'') = Some (Regular md)"
  shows "c \<in> set (po_locales w)"
proof -
  let ?f = "''messages_'' @ c @ ''.po''"
  let ?keep = "\<lambda>filename.
        split_first filename = ''messages'' \<and>
        snd (splitext filename) = ''.po'' \<and>
        (case fmlookup (dir_entries w) filename of
           Some (Regular md) \<Rightarrow> True | _ \<Rightarrow> False)"
  let ?code = "\<lambda>filename. the (split_second (fst (splitext filename)))"
  have "?f |\<in>| fmdom (dir_entries w)"
    using assms by (rule fmdomI)
  then have listed: "?f \<in> set (sorted_list_of_fset (fmdom (dir_entries w)))"
    by simp
  have ext: "splitext ?f = (''messages_'' @ c, ''.po'')"
    by (rule splitext_catalog)
  have "?keep ?f"
    using assms ext split_first_catalog [of c] by (simp del: append.simps)
  with listed have "?f \<in> set (filter ?keep (sorted_list_of_fset (fmdom (dir_entries w))))"
    by (simp del: append.simps)
  then have "?code ?f \<in> ?code ` set (filter ?keep (sorted_list_of_fset (fmdom (dir_entries w))))"
    by (rule imageI)
  moreover have "?code ?f = c"
    using ext split_second_root [of c] by (simp del: append.simps)
  ultimately show ?thesis
    by (simp add: po_locales_def del: append.simps)
qed

lemma po_locales_regular:
  assumes "c \<in> set (po_locales w)"
  shows "\<exists>md. fmlookup (dir_entries w) (''messages_'' @ c @ ''.po'') = Some (Regular md)"
proof -
  from assms obtain f where c: "c = the (split_second (fst (splitext f)))"
    and sf: "split_first f = ''messages''" and ext: "snd (splitext f) = ''.po''"
    and reg: "case fmlookup (dir_entries w) f of Some (Regular md) \<Rightarrow> True | _ \<Rightarrow> False"
    by (auto simp: po_locales_def)
  from catalog_name [OF sf ext] c have "f = ''messages_'' @ c @ ''.po''"
    by auto
  with reg show ?thesis
    by (auto split: option.splits dirent.splits)
qed

lemma pofiles_locale_errors:
  assumes "c \<in> set (po_locales w)" and "Locale_init w (Some c) (Some ''pofiles'') = Inl e"
  shows "e = KeyError ''Language-Name'' \<or> e = KeyError ''Language-Native-Name''"
proof -
  from po_locales_regular [OF assms(1)] obtain md
    where "fmlookup (dir_entries w) (''messages_'' @ c @ ''.po'') = Some (Regular md)"
    by blast
  with assms(2) show ?thesis
    by (cases c)
      (auto simp: Locale_init_pofiles pofiles_locale_def metadata_get_def
            split: option.splits)
qed

lemma pofiles_locale_malformed:
  assumes "fmlookup (dir_entries w) (''messages_'' @ c @ ''.po'') = Some (Regular md)"
      and "c \<noteq> []"
      and "fmlookup md ''Language-Name'' = None \<or> fmlookup md ''Language-Native-Name'' = None"
  shows "\<exists>e. Locale_init w (Some c) (Some ''pofiles'') = Inl e"
  using assms
  by (cases c)
    (auto simp: Locale_init_pofiles pofiles_locale_def metadata_get_def
          split: option.splits)

lemma collect_raises:
  assumes "c \<in> set cs" and "Locale_init w (Some c) src = Inl e0"
      and "\<And>c' e. c' \<in> set cs \<Longrightarrow> Locale_init w (Some c') src = Inl e \<Longrightarrow> Q e"
  shows "\<exists>e. collect w tt src cs out = Inl e \<and> Q e"
  using assms
proof (induction cs arbitrary: out)
  case Nil
  then show ?case by simp
next
  case (Cons a cs)
  show ?case
  proof (cases "Locale_init w (Some a) src")
    case (Inl e)
    with Cons.prems(3) [of a e] show ?thesis by simp
  next
    case (Inr l)
    with Cons.prems(1,2) have "c \<in> set cs" by auto
    have "\<exists>e. collect w tt src cs out' = Inl e \<and> Q e" for out'
    proof (rule Cons.IH [OF \<open>c \<in> set cs\<close> Cons.prems(2)])
      fix c' e
      assume "c' \<in> set cs" and "Locale_init w (Some c') src = Inl e"
      then show "Q e" using Cons.prems(3) [of c' e] by simp
    qed
    with Inr show ?thesis by (simp add: Let_def)
  qed
qed

lemma getLanguages_pofiles:
  "getLanguages w [] tt (Some ''pofiles'') = collect w tt (Some ''pofiles'') (po_locales w) fmempty"
  by (simp add: getLanguages_def Locale_init_pofiles pofiles_locale_def)

lemma first_source_total:
  "\<exists>seed. first_source w (butlast getAvailableSources) = Inr seed"
proof (cases "mod_icu w = None \<and> mod_PyICU w = None")
  case True
  then show ?thesis
    using getLanguages_babel_available [of w "[]" True]
    by (cases "mod_babel w = None") (auto simp: first_source_registries)
next
  case False
  then show ?thesis
    using getLanguages_icu_available [of w "[]" True]
    by (auto simp: first_source_registries)
qed

text \<open>
  Claim C8. When \<^verbatim>\<open>g.data_dir\<close> holds a regular file \<^verbatim>\<open>messages_<code>.po\<close> with a
  non-empty code whose header lacks \<^verbatim>\<open>Language-Name\<close> or \<^verbatim>\<open>Language-Native-Name\<close>,
  the query of the translation files raises the \<^verbatim>\<open>KeyError\<close> of a missing field,
  nothing catches it, and the run is lost: \<^verbatim>\<open>main\<close> ends with that exception (or with
  the \<^verbatim>\<open>ValueError\<close> of a data file that is not JSON, which comes first), the exit
  status is 1, the exception is printed, and no file is written.
\<close>

theorem malformed_catalog_is_fatal:
  assumes "fmlookup (dir_entries w) (''messages_'' @ c @ ''.po'') = Some (Regular md)"
      and "c \<noteq> []"
      and "fmlookup md ''Language-Name'' = None \<or> fmlookup md ''Language-Native-Name'' = None"
  shows "\<exists>k. (k = ''Language-Name'' \<or> k = ''Language-Native-Name'')
           \<and> getLanguages w [] True (Some ''pofiles'') = Inl (KeyError k)
           \<and> raised (main w)
               = Some (if files w (datafile w) = NotJson
                       then ValueError ''No JSON object could be decoded''
                       else KeyError k)
           \<and> exit_code (script w) = 1
           \<and> stdout (script w)
               = [if files w (datafile w) = NotJson then ''No JSON object could be decoded''
                  else [CHR 39] @ k @ [CHR 39]]
           \<and> stderr (script w) = []
           \<and> files_end (script w) = files w"
proof -
  let ?Q = "\<lambda>e. e = KeyError ''Language-Name'' \<or> e = KeyError ''Language-Native-Name''"
  from pofiles_locale_malformed [OF assms]
  obtain e0 where e0: "Locale_init w (Some c) (Some ''pofiles'') = Inl e0" by blast
  have "c \<in> set (po_locales w)"
    using assms(1) by (rule po_locales_member)
  from collect_raises [of c "po_locales w" w "Some ''pofiles''" e0 ?Q True fmempty, OF this e0]
  obtain e where "collect w True (Some ''pofiles'') (po_locales w) fmempty = Inl e" and "?Q e"
    using pofiles_locale_errors by blast
  then obtain k where k: "k = ''Language-Name'' \<or> k = ''Language-Native-Name''"
    and g: "getLanguages w [] True (Some ''pofiles'') = Inl (KeyError k)"
    by (auto simp: getLanguages_pofiles)
  obtain seed where seed: "first_source w (butlast getAvailableSources) = Inr seed"
    using first_source_total by blast
  let ?e = "if files w (datafile w) = NotJson
            then ValueError ''No JSON object could be decoded'' else KeyError k"
  have m: "merged_languages w = Inl ?e"
    using seed g
    by (cases "files w (datafile w)")
      (simp_all add: merged_languages_def last_source loadLanguagesData_def)
  have "raised (main w) = Some ?e"
    using m by (simp add: main_raises)
  moreover have "script w = \<lparr>exit_code = 1, stdout = [err_text ?e], stderr = [], files_end = files w\<rparr>"
    using m by (rule script_raises)
  moreover have "err_text ?e =
      (if files w (datafile w) = NotJson then ''No JSON object could be decoded''
       else [CHR 39] @ k @ [CHR 39])"
    by simp
  ultimately show ?thesis
    using k g by (intro exI [of _ k]) simp
qed

theorem malformed_catalog_is_fatal_witness:
  "fmlookup (dir_entries broken_catalog_world) (''messages_'' @ ''de'' @ ''.po'')
     = Some (Regular (fmap_of_list [(''Language-Name'', ustr ''German'')]))
   \<and> fmlookup (fmap_of_list [(''Language-Name'', ustr ''German'')]) ''Language-Native-Name'' = None
   \<and> getLanguages broken_catalog_world [] True (Some ''pofiles'')
       = Inl (KeyError ''Language-Native-Name'')
   \<and> exit_code (script broken_catalog_world) = 1
   \<and> stdout (script broken_catalog_world) = [[CHR 39] @ ''Language-Native-Name'' @ [CHR 39]]
   \<and> files_end (script broken_catalog_world) = files broken_catalog_world"
proof -
  have d: "fmlookup (dir_entries broken_catalog_world) (''messages_'' @ ''de'' @ ''.po'')
     = Some (Regular (fmap_of_list [(''Language-Name'', ustr ''German'')]))"
    by code_simp
  have n: "fmlookup (fmap_of_list [(''Language-Name'', ustr ''German'')]) ''Language-Name'' = None
     \<or> fmlookup (fmap_of_list [(''Language-Name'', ustr ''German'')]) ''Language-Native-Name'' = None"
    by simp
  have c: "''de'' \<noteq> []" by simp
  have g: "getLanguages broken_catalog_world [] True (Some ''pofiles'')
       = Inl (KeyError ''Language-Native-Name'')"
    by code_simp
  have f: "files broken_catalog_world (datafile broken_catalog_world) \<noteq> NotJson"
    by code_simp
  from malformed_catalog_is_fatal [OF d c n] g f d show ?thesis
    by auto
qed

end
